theory Spec2Isabelle
  imports Complex_Main "HOL-Library.Word"
begin

section \<open>Python values used by the transports\<close>

text \<open>
  A Python \<open>str\<close> is a sequence of Unicode code points, a \<open>bytes\<close> object a sequence of
  8-bit values. String literals of the source are written through \<open>str_lit\<close>.
\<close>

type_synonym pystr = "nat list"
type_synonym byte = "8 word"
type_synonym pybytes = "byte list"

definition str_lit :: "string \<Rightarrow> pystr" where
  "str_lit s = map of_char s"

text \<open>
  The exception classes that the transports raise or catch. Only the class is modelled,
  not the message text. \<open>IOError\<close> is Python 3's alias of \<open>OSError\<close>; the
  predicates below are the \<open>isinstance\<close> tests that the \<open>except\<close> clauses of the
  source perform.
\<close>

datatype exn =
    ConnectionError
  | TimeoutError
  | IOError
  | FileNotFoundError
  | SerialException
  | SerialTimeoutException
  | CanError
  | TypeError
  | ValueError
  | UnicodeEncodeError

fun is_IOError :: "exn \<Rightarrow> bool" where
  "is_IOError ConnectionError = True"
| "is_IOError TimeoutError = True"
| "is_IOError IOError = True"
| "is_IOError FileNotFoundError = True"
| "is_IOError SerialException = True"
| "is_IOError SerialTimeoutException = True"
| "is_IOError CanError = False"
| "is_IOError TypeError = False"
| "is_IOError ValueError = False"
| "is_IOError UnicodeEncodeError = False"

fun is_SerialException :: "exn \<Rightarrow> bool" where
  "is_SerialException SerialException = True"
| "is_SerialException SerialTimeoutException = True"
| "is_SerialException _ = False"

fun is_SerialTimeoutException :: "exn \<Rightarrow> bool" where
  "is_SerialTimeoutException SerialTimeoutException = True"
| "is_SerialTimeoutException _ = False"

fun is_CanError :: "exn \<Rightarrow> bool" where
  "is_CanError CanError = True"
| "is_CanError _ = False"

subsection \<open>\<open>str.encode('utf-8')\<close>\<close>

text \<open>
  One code point becomes one to four bytes; a surrogate (U+D800 to U+DFFF) cannot be
  encoded and raises \<open>UnicodeEncodeError\<close>.
\<close>

definition utf8_encode_cp :: "nat \<Rightarrow> exn + pybytes" where
  "utf8_encode_cp c =
     (if c < 0x80 then Inr [of_nat c]
      else if c < 0x800 then Inr [of_nat (0xC0 + c div 64), of_nat (0x80 + c mod 64)]
      else if c < 0x10000 then
        (if 0xD800 \<le> c \<and> c \<le> 0xDFFF then Inl UnicodeEncodeError
         else Inr [of_nat (0xE0 + c div 4096), of_nat (0x80 + (c div 64) mod 64),
                   of_nat (0x80 + c mod 64)])
      else Inr [of_nat (0xF0 + c div 262144), of_nat (0x80 + (c div 4096) mod 64),
                of_nat (0x80 + (c div 64) mod 64), of_nat (0x80 + c mod 64)])"

fun utf8_encode :: "pystr \<Rightarrow> exn + pybytes" where
  "utf8_encode [] = Inr []"
| "utf8_encode (c # cs) =
     (case utf8_encode_cp c of
        Inl e \<Rightarrow> Inl e
      | Inr bs \<Rightarrow> (case utf8_encode cs of Inl e \<Rightarrow> Inl e | Inr rest \<Rightarrow> Inr (bs @ rest)))"

subsection \<open>\<open>bytes.decode('utf-8', errors='ignore')\<close>\<close>

definition is_cont :: "byte \<Rightarrow> bool" where
  "is_cont b = (0x80 \<le> b \<and> b < 0xC0)"

definition cp2 :: "byte \<Rightarrow> byte \<Rightarrow> nat" where
  "cp2 a b = (unat a mod 32) * 64 + unat b mod 64"

definition cp3 :: "byte \<Rightarrow> byte \<Rightarrow> byte \<Rightarrow> nat" where
  "cp3 a b c = (unat a mod 16) * 4096 + (unat b mod 64) * 64 + unat c mod 64"

definition cp4 :: "byte \<Rightarrow> byte \<Rightarrow> byte \<Rightarrow> byte \<Rightarrow> nat" where
  "cp4 a b c d =
     (unat a mod 8) * 262144 + (unat b mod 64) * 4096 + (unat c mod 64) * 64 + unat d mod 64"

text \<open>
  The second byte of a three-byte or four-byte sequence is acceptable when it is a
  continuation byte that yields neither an overlong form, a surrogate nor a code point
  above U+10FFFF.
\<close>

definition ok2_of3 :: "byte \<Rightarrow> byte \<Rightarrow> bool" where
  "ok2_of3 a b = (is_cont b \<and> \<not> (if b < 0xA0 then a = 0xE0 else a = 0xED))"

definition ok2_of4 :: "byte \<Rightarrow> byte \<Rightarrow> bool" where
  "ok2_of4 a b = (is_cont b \<and> \<not> (if b < 0x90 then a = 0xF0 else a = 0xF4))"

text \<open>
  The decoder drops what it cannot decode: an invalid start byte alone, a start byte
  with the valid continuation bytes before the first invalid one, and a truncated
  sequence at the end of the input.
\<close>

fun utf8_decode_ignore :: "pybytes \<Rightarrow> pystr" where
  "utf8_decode_ignore [] = []"
| "utf8_decode_ignore (a # bs) =
     (if a < 0x80 then unat a # utf8_decode_ignore bs
      else if a < 0xC2 then utf8_decode_ignore bs
      else if a < 0xE0 then
        (case bs of
           [] \<Rightarrow> []
         | b # r \<Rightarrow> if is_cont b then cp2 a b # utf8_decode_ignore r
                    else utf8_decode_ignore bs)
      else if a < 0xF0 then
        (case bs of
           [] \<Rightarrow> []
         | b # r \<Rightarrow>
             if \<not> ok2_of3 a b then utf8_decode_ignore bs
             else (case r of
                     [] \<Rightarrow> []
                   | c # r' \<Rightarrow> if is_cont c then cp3 a b c # utf8_decode_ignore r'
                               else utf8_decode_ignore r))
      else if a < 0xF5 then
        (case bs of
           [] \<Rightarrow> []
         | b # r \<Rightarrow>
             if \<not> ok2_of4 a b then utf8_decode_ignore bs
             else (case r of
                     [] \<Rightarrow> []
                   | c # r' \<Rightarrow>
                       if \<not> is_cont c then utf8_decode_ignore r
                       else (case r' of
                               [] \<Rightarrow> []
                             | d # r'' \<Rightarrow>
                                 if is_cont d then cp4 a b c d # utf8_decode_ignore r''
                                 else utf8_decode_ignore r')))
      else utf8_decode_ignore bs)"

subsection \<open>\<open>str.strip()\<close>\<close>

text \<open>The code points for which \<open>str.isspace\<close> holds.\<close>

definition py_isspace :: "nat \<Rightarrow> bool" where
  "py_isspace c =
     ((0x09 \<le> c \<and> c \<le> 0x0D) \<or> (0x1C \<le> c \<and> c \<le> 0x20) \<or> c = 0x85 \<or> c = 0xA0
      \<or> c = 0x1680 \<or> (0x2000 \<le> c \<and> c \<le> 0x200A) \<or> c = 0x2028 \<or> c = 0x2029
      \<or> c = 0x202F \<or> c = 0x205F \<or> c = 0x3000)"

definition py_strip :: "pystr \<Rightarrow> pystr" where
  "py_strip s = rev (dropWhile py_isspace (rev (dropWhile py_isspace s)))"

subsection \<open>\<open>str(data)\<close>\<close>

text \<open>
  The receiver passes \<open>str(data)\<close> to its consumer. For a string that is the string
  itself, for \<open>None\<close> the text \<open>None\<close>, and for a list of integers the bracketed,
  comma-separated decimal numbers.
\<close>

function dec_digits :: "nat \<Rightarrow> pystr" where
  "dec_digits n = (if n < 10 then [48 + n] else dec_digits (n div 10) @ [48 + n mod 10])"
  by pat_completeness auto
termination
  by (relation "measure id") auto

definition str_int :: "int \<Rightarrow> pystr" where
  "str_int i = (if i < 0 then 45 # dec_digits (nat (- i)) else dec_digits (nat i))"

fun join_comma :: "pystr list \<Rightarrow> pystr" where
  "join_comma [] = []"
| "join_comma [s] = s"
| "join_comma (s # t # ss) = s @ [44, 32] @ join_comma (t # ss)"

datatype rx = RxStr pystr | RxNone | RxList "int list"

fun py_str :: "rx \<Rightarrow> pystr" where
  "py_str (RxStr s) = s"
| "py_str RxNone = [78, 111, 110, 101]"
| "py_str (RxList xs) = [91] @ join_comma (map str_int xs) @ [93]"

text \<open>Truthiness, as tested by \<open>if data:\<close>.\<close>

fun truthy :: "rx \<Rightarrow> bool" where
  "truthy (RxStr s) = (s \<noteq> [])"
| "truthy RxNone = False"
| "truthy (RxList xs) = (xs \<noteq> [])"

section \<open>The libraries underneath\<close>

text \<open>
  The transports call pyserial, python-can and smbus. Each call of a library function is
  an \<open>io_call\<close>; the trace lists the calls made so far, each with the exception it
  raised, if any. What a call does is decided by the device, a parameter of the whole
  development: from the trace so far and the call, whether the call raises and, for the
  reading calls, what it returns.
\<close>

record can_Message =
  arbitration_id :: int
  data :: pybytes
  is_extended_id :: bool

datatype io_call =
    Serial_open pystr int int
  | Serial_close
  | Serial_write pybytes
  | Serial_flush
  | Serial_read int
  | Serial_readline
  | Can_Bus pystr pystr int
  | Can_shutdown
  | Can_send int pybytes bool
  | Can_recv real
  | SMBus_open int
  | SMBus_close
  | SMBus_read_byte int
  | SMBus_write_byte int int
  | SMBus_write_i2c_block_data int int "int list"
  | SMBus_read_i2c_block_data int int int
  | QThread_msleep nat

type_synonym trace = "(io_call \<times> exn option) list"

record device =
  raises :: "trace \<Rightarrow> io_call \<Rightarrow> exn option"
  serial_bytes :: "trace \<Rightarrow> io_call \<Rightarrow> pybytes"
  can_frame :: "trace \<Rightarrow> io_call \<Rightarrow> can_Message option"
  smbus_int :: "trace \<Rightarrow> io_call \<Rightarrow> int"
  smbus_block :: "trace \<Rightarrow> io_call \<Rightarrow> int list"

definition lib_call :: "device \<Rightarrow> trace \<Rightarrow> io_call \<Rightarrow> exn option \<times> trace" where
  "lib_call dev tr c = (raises dev tr c, tr @ [(c, raises dev tr c)])"

text \<open>The library objects that the transports store. All of them are truthy.\<close>

record serial_Serial =
  is_open :: bool

datatype can_BusABC = BusABC

datatype smbus_SMBus = SMBus

section \<open>UART: \<open>communication/uart_comm.py\<close>\<close>

text \<open>
  Record fields share one name space, so the attributes of each class carry the class as
  a prefix: \<open>uart_port\<close> is \<open>self.port\<close> of \<open>UARTCommunication\<close>. Every method
  takes the object and the trace and returns its result (\<open>Inl\<close> the exception raised),
  the object and the trace afterwards.
\<close>

record UARTCommunication =
  uart_port :: pystr
  uart_baudrate :: int
  uart_timeout :: int
  uart_serial_conn :: "serial_Serial option"

definition uart_init :: "pystr \<Rightarrow> int \<Rightarrow> int \<Rightarrow> UARTCommunication" where
  "uart_init port baudrate timeout =
     \<lparr>uart_port = port, uart_baudrate = baudrate, uart_timeout = timeout,
      uart_serial_conn = None\<rparr>"

definition uart_is_connected :: "UARTCommunication \<Rightarrow> bool" where
  "uart_is_connected u = (case uart_serial_conn u of None \<Rightarrow> False | Some s \<Rightarrow> is_open s)"

definition uart_connect ::
  "device \<Rightarrow> UARTCommunication \<Rightarrow> trace \<Rightarrow> (exn + unit) \<times> UARTCommunication \<times> trace" where
  "uart_connect dev u tr =
     (if (case uart_serial_conn u of None \<Rightarrow> False | Some s \<Rightarrow> is_open s) then (Inr (), u, tr)
      else
        (case lib_call dev tr (Serial_open (uart_port u) (uart_baudrate u) (uart_timeout u)) of
           (None, tr') \<Rightarrow> (Inr (), u\<lparr>uart_serial_conn := Some \<lparr>is_open = True\<rparr>\<rparr>, tr')
         | (Some e, tr') \<Rightarrow>
             (Inl (if is_SerialException e then ConnectionError else e), u, tr')))"

definition uart_disconnect ::
  "device \<Rightarrow> UARTCommunication \<Rightarrow> trace \<Rightarrow> (exn + unit) \<times> UARTCommunication \<times> trace" where
  "uart_disconnect dev u tr =
     (if (case uart_serial_conn u of None \<Rightarrow> False | Some s \<Rightarrow> is_open s) then
        (case lib_call dev tr Serial_close of
           (None, tr') \<Rightarrow> (Inr (), u\<lparr>uart_serial_conn := None\<rparr>, tr')
         | (Some e, tr') \<Rightarrow> (Inl e, u, tr'))
      else (Inr (), u, tr))"

definition uart_send_data ::
  "device \<Rightarrow> UARTCommunication \<Rightarrow> trace \<Rightarrow> pystr \<Rightarrow> (exn + unit) \<times> UARTCommunication \<times> trace"
  where
  "uart_send_data dev u tr payload =
     (if \<not> uart_is_connected u then (Inl ConnectionError, u, tr)
      else
        (case utf8_encode payload of
           Inl e \<Rightarrow> (Inl (if is_SerialTimeoutException e then TimeoutError else e), u, tr)
         | Inr bs \<Rightarrow>
             (case lib_call dev tr (Serial_write bs) of
                (None, tr') \<Rightarrow> (Inr (), u, tr')
              | (Some e, tr') \<Rightarrow>
                  (Inl (if is_SerialTimeoutException e then TimeoutError else e), u, tr'))))"

definition uart_receive_data ::
  "device \<Rightarrow> UARTCommunication \<Rightarrow> trace \<Rightarrow> int option \<Rightarrow>
     (exn + pystr) \<times> UARTCommunication \<times> trace" where
  "uart_receive_data dev u tr num_bytes =
     (if \<not> uart_is_connected u then (Inl ConnectionError, u, tr)
      else
        (let c = (case num_bytes of
                    None \<Rightarrow> Serial_readline
                  | Some n \<Rightarrow> if n \<noteq> 0 then Serial_read n else Serial_readline)
         in case lib_call dev tr c of
              (None, tr') \<Rightarrow> (Inr (py_strip (utf8_decode_ignore (serial_bytes dev tr c))), u, tr')
            | (Some e, tr') \<Rightarrow> (Inl e, u, tr')))"

section \<open>RS485: \<open>communication/rs485_comm.py\<close>\<close>

record RS485Communication =
  rs485_port :: pystr
  rs485_baudrate :: int
  rs485_timeout :: int
  rs485_serial_conn :: "serial_Serial option"


definition rs485_is_connected :: "RS485Communication \<Rightarrow> bool" where
  "rs485_is_connected u = (case rs485_serial_conn u of None \<Rightarrow> False | Some s \<Rightarrow> is_open s)"

definition rs485_connect ::
  "device \<Rightarrow> RS485Communication \<Rightarrow> trace \<Rightarrow> (exn + unit) \<times> RS485Communication \<times> trace" where
  "rs485_connect dev u tr =
     (if (case rs485_serial_conn u of None \<Rightarrow> False | Some s \<Rightarrow> is_open s) then (Inr (), u, tr)
      else
        (case lib_call dev tr (Serial_open (rs485_port u) (rs485_baudrate u) (rs485_timeout u)) of
           (None, tr') \<Rightarrow> (Inr (), u\<lparr>rs485_serial_conn := Some \<lparr>is_open = True\<rparr>\<rparr>, tr')
         | (Some e, tr') \<Rightarrow>
             (Inl (if is_SerialException e then ConnectionError else e), u, tr')))"

definition rs485_disconnect ::
  "device \<Rightarrow> RS485Communication \<Rightarrow> trace \<Rightarrow> (exn + unit) \<times> RS485Communication \<times> trace" where
  "rs485_disconnect dev u tr =
     (if (case rs485_serial_conn u of None \<Rightarrow> False | Some s \<Rightarrow> is_open s) then
        (case lib_call dev tr Serial_close of
           (None, tr') \<Rightarrow> (Inr (), u\<lparr>rs485_serial_conn := None\<rparr>, tr')
         | (Some e, tr') \<Rightarrow> (Inl e, u, tr'))
      else (Inr (), u, tr))"

text \<open>\<open>send_data\<close> writes and then flushes, both inside the \<open>try\<close>.\<close>

definition rs485_send_data ::
  "device \<Rightarrow> RS485Communication \<Rightarrow> trace \<Rightarrow> pystr \<Rightarrow>
     (exn + unit) \<times> RS485Communication \<times> trace" where
  "rs485_send_data dev u tr payload =
     (if \<not> rs485_is_connected u then (Inl ConnectionError, u, tr)
      else
        (case utf8_encode payload of
           Inl e \<Rightarrow> (Inl (if is_SerialTimeoutException e then TimeoutError else e), u, tr)
         | Inr bs \<Rightarrow>
             (case lib_call dev tr (Serial_write bs) of
                (Some e, tr') \<Rightarrow>
                  (Inl (if is_SerialTimeoutException e then TimeoutError else e), u, tr')
              | (None, tr') \<Rightarrow>
                  (case lib_call dev tr' Serial_flush of
                     (None, tr'') \<Rightarrow> (Inr (), u, tr'')
                   | (Some e, tr'') \<Rightarrow>
                       (Inl (if is_SerialTimeoutException e then TimeoutError else e), u, tr'')))))"

definition rs485_receive_data ::
  "device \<Rightarrow> RS485Communication \<Rightarrow> trace \<Rightarrow> (exn + pystr) \<times> RS485Communication \<times> trace" where
  "rs485_receive_data dev u tr =
     (if \<not> rs485_is_connected u then (Inl ConnectionError, u, tr)
      else
        (case lib_call dev tr Serial_readline of
           (None, tr') \<Rightarrow>
             (Inr (py_strip (utf8_decode_ignore (serial_bytes dev tr Serial_readline))), u, tr')
         | (Some e, tr') \<Rightarrow> (Inl e, u, tr')))"

section \<open>CAN: \<open>communication/can_comm.py\<close>\<close>

record CANCommunication =
  can_channel :: pystr
  can_bitrate :: int
  can_interface :: pystr
  can_bus :: "can_BusABC option"

definition can_init :: "pystr \<Rightarrow> int \<Rightarrow> pystr \<Rightarrow> CANCommunication" where
  "can_init channel bitrate interface =
     \<lparr>can_channel = channel, can_bitrate = bitrate, can_interface = interface, can_bus = None\<rparr>"

definition can_is_connected :: "CANCommunication \<Rightarrow> bool" where
  "can_is_connected c = (can_bus c \<noteq> None)"

text \<open>\<open>connect\<close> catches \<open>Exception\<close>, which every exception class of the model is.\<close>

definition can_connect ::
  "device \<Rightarrow> CANCommunication \<Rightarrow> trace \<Rightarrow> (exn + unit) \<times> CANCommunication \<times> trace" where
  "can_connect dev c tr =
     (if can_bus c \<noteq> None then (Inr (), c, tr)
      else
        (case lib_call dev tr (Can_Bus (can_interface c) (can_channel c) (can_bitrate c)) of
           (None, tr') \<Rightarrow> (Inr (), c\<lparr>can_bus := Some BusABC\<rparr>, tr')
         | (Some e, tr') \<Rightarrow> (Inl ConnectionError, c, tr')))"

definition can_disconnect ::
  "device \<Rightarrow> CANCommunication \<Rightarrow> trace \<Rightarrow> (exn + unit) \<times> CANCommunication \<times> trace" where
  "can_disconnect dev c tr =
     (if can_bus c \<noteq> None then
        (case lib_call dev tr Can_shutdown of
           (None, tr') \<Rightarrow> (Inr (), c\<lparr>can_bus := None\<rparr>, tr')
         | (Some e, tr') \<Rightarrow> (Inl e, c, tr'))
      else (Inr (), c, tr))"

definition can_send_data ::
  "device \<Rightarrow> CANCommunication \<Rightarrow> trace \<Rightarrow> pystr \<Rightarrow> int \<Rightarrow>
     (exn + unit) \<times> CANCommunication \<times> trace" where
  "can_send_data dev c tr payload arb_id =
     (if \<not> can_is_connected c then (Inl ConnectionError, c, tr)
      else
        (case utf8_encode payload of
           Inl e \<Rightarrow> (Inl (if is_CanError e then IOError else e), c, tr)
         | Inr bs \<Rightarrow>
             (case lib_call dev tr (Can_send arb_id bs False) of
                (None, tr') \<Rightarrow> (Inr (), c, tr')
              | (Some e, tr') \<Rightarrow> (Inl (if is_CanError e then IOError else e), c, tr'))))"

text \<open>A \<open>can.Message\<close> is always truthy, so \<open>if message:\<close> tests for \<open>None\<close>.\<close>

definition can_receive_data ::
  "device \<Rightarrow> CANCommunication \<Rightarrow> trace \<Rightarrow> real \<Rightarrow>
     (exn + pystr option) \<times> CANCommunication \<times> trace" where
  "can_receive_data dev c tr timeout =
     (if \<not> can_is_connected c then (Inl ConnectionError, c, tr)
      else
        (case lib_call dev tr (Can_recv timeout) of
           (Some e, tr') \<Rightarrow> (Inl e, c, tr')
         | (None, tr') \<Rightarrow>
             (case can_frame dev tr (Can_recv timeout) of
                Some message \<Rightarrow> (Inr (Some (utf8_decode_ignore (data message))), c, tr')
              | None \<Rightarrow> (Inr None, c, tr'))))"

section \<open>I2C: \<open>communication/i2c_comm.py\<close>\<close>

record I2CCommunication =
  i2c_bus_number :: int
  i2c_device_address :: int
  i2c_bus :: "smbus_SMBus option"
  i2c_connected :: bool

text \<open>
  The constructor stores its arguments. It has no \<open>raise\<close>; the result is a sum only
  so that statements about a failing construction can be written.
\<close>

definition i2c_init :: "int \<Rightarrow> int \<Rightarrow> exn + I2CCommunication" where
  "i2c_init bus_number device_address =
     Inr \<lparr>i2c_bus_number = bus_number, i2c_device_address = device_address,
          i2c_bus = None, i2c_connected = False\<rparr>"

definition i2c_is_connected :: "I2CCommunication \<Rightarrow> bool" where
  "i2c_is_connected i = i2c_connected i"

text \<open>
  \<open>connect\<close> stores the bus as soon as \<open>smbus.SMBus\<close> returns and then probes the
  device with \<open>read_byte\<close>. The \<open>except\<close> clause catches \<open>FileNotFoundError\<close> and
  \<open>IOError\<close>; it resets \<open>_connected\<close> and leaves \<open>self.bus\<close> as it is.
\<close>

definition i2c_connect ::
  "device \<Rightarrow> I2CCommunication \<Rightarrow> trace \<Rightarrow> (exn + unit) \<times> I2CCommunication \<times> trace" where
  "i2c_connect dev i tr =
     (if i2c_bus i \<noteq> None then (Inr (), i, tr)
      else
        (case lib_call dev tr (SMBus_open (i2c_bus_number i)) of
           (Some e, tr') \<Rightarrow>
             (if is_IOError e then (Inl ConnectionError, i\<lparr>i2c_connected := False\<rparr>, tr')
              else (Inl e, i, tr'))
         | (None, tr') \<Rightarrow>
             (let i' = i\<lparr>i2c_bus := Some SMBus\<rparr> in
              case lib_call dev tr' (SMBus_read_byte (i2c_device_address i')) of
                (Some e, tr'') \<Rightarrow>
                  (if is_IOError e then (Inl ConnectionError, i'\<lparr>i2c_connected := False\<rparr>, tr'')
                   else (Inl e, i', tr''))
              | (None, tr'') \<Rightarrow> (Inr (), i'\<lparr>i2c_connected := True\<rparr>, tr''))))"

definition i2c_disconnect ::
  "device \<Rightarrow> I2CCommunication \<Rightarrow> trace \<Rightarrow> (exn + unit) \<times> I2CCommunication \<times> trace" where
  "i2c_disconnect dev i tr =
     (if i2c_bus i \<noteq> None then
        (case lib_call dev tr SMBus_close of
           (None, tr') \<Rightarrow> (Inr (), i\<lparr>i2c_bus := None, i2c_connected := False\<rparr>, tr')
         | (Some e, tr') \<Rightarrow> (Inl e, i, tr'))
      else (Inr (), i\<lparr>i2c_connected := False\<rparr>, tr))"

text \<open>
  \<open>send_data\<close> accepts a string, a list of integers, or anything else, for which it
  raises \<open>TypeError\<close>. A string becomes the list of \<open>ord(c)\<close> of its characters.
\<close>

datatype i2c_payload = PStr pystr | PList "int list" | POther

definition i2c_send_data ::
  "device \<Rightarrow> I2CCommunication \<Rightarrow> trace \<Rightarrow> i2c_payload \<Rightarrow> int option \<Rightarrow>
     (exn + unit) \<times> I2CCommunication \<times> trace" where
  "i2c_send_data dev i tr payload register =
     (if \<not> i2c_is_connected i then (Inl ConnectionError, i, tr)
      else
        (case (case payload of
                 PStr s \<Rightarrow> Inr (map int s)
               | PList xs \<Rightarrow> Inr xs
               | POther \<Rightarrow> Inl TypeError) of
           Inl e \<Rightarrow> (Inl e, i, tr)
         | Inr data_bytes \<Rightarrow>
             (case register of
                Some reg \<Rightarrow>
                  (case lib_call dev tr
                          (SMBus_write_i2c_block_data (i2c_device_address i) reg data_bytes) of
                     (None, tr') \<Rightarrow> (Inr (), i, tr')
                   | (Some e, tr') \<Rightarrow> (Inl (if is_IOError e then IOError else e), i, tr'))
              | None \<Rightarrow>
                  (case data_bytes of
                     [] \<Rightarrow> (Inr (), i, tr)
                   | b # _ \<Rightarrow>
                       (case lib_call dev tr (SMBus_write_byte (i2c_device_address i) b) of
                          (None, tr') \<Rightarrow> (Inr (), i, tr')
                        | (Some e, tr') \<Rightarrow>
                            (Inl (if is_IOError e then IOError else e), i, tr'))))))"

text \<open>
  The list comprehension \<open>[self.bus.read_byte(addr) for _ in range(num_bytes)]\<close>: one
  call per element, stopping at the first that raises.
\<close>

fun read_byte_loop :: "device \<Rightarrow> int \<Rightarrow> nat \<Rightarrow> trace \<Rightarrow> (exn + int list) \<times> trace" where
  "read_byte_loop dev addr 0 tr = (Inr [], tr)"
| "read_byte_loop dev addr (Suc n) tr =
     (case lib_call dev tr (SMBus_read_byte addr) of
        (Some e, tr') \<Rightarrow> (Inl e, tr')
      | (None, tr') \<Rightarrow>
          (case read_byte_loop dev addr n tr' of
             (Inl e, tr'') \<Rightarrow> (Inl e, tr'')
           | (Inr bs, tr'') \<Rightarrow> (Inr (smbus_int dev tr (SMBus_read_byte addr) # bs), tr'')))"

definition i2c_receive_data ::
  "device \<Rightarrow> I2CCommunication \<Rightarrow> trace \<Rightarrow> int \<Rightarrow> int option \<Rightarrow>
     (exn + int list) \<times> I2CCommunication \<times> trace" where
  "i2c_receive_data dev i tr num_bytes register =
     (if \<not> i2c_is_connected i then (Inl ConnectionError, i, tr)
      else
        (case register of
           Some reg \<Rightarrow>
             (let c = SMBus_read_i2c_block_data (i2c_device_address i) reg num_bytes in
              case lib_call dev tr c of
                (None, tr') \<Rightarrow> (Inr (smbus_block dev tr c), i, tr')
              | (Some e, tr') \<Rightarrow> (Inl (if is_IOError e then IOError else e), i, tr'))
         | None \<Rightarrow>
             (case read_byte_loop dev (i2c_device_address i) (nat num_bytes) tr of
                (Inr bs, tr') \<Rightarrow> (Inr bs, i, tr')
              | (Inl e, tr') \<Rightarrow> (Inl (if is_IOError e then IOError else e), i, tr'))))"

section \<open>The transport seen by the application\<close>

text \<open>
  \<open>main_app.py\<close> holds one of the four objects in \<open>self.comm_instance\<close> and calls
  \<open>connect()\<close>, \<open>disconnect()\<close>, \<open>is_connected()\<close>, \<open>send_data(command)\<close> and
  \<open>receive_data()\<close> on it, the optional parameters at their defaults.
\<close>

datatype transport =
    UART UARTCommunication
  | RS485 RS485Communication
  | CAN CANCommunication
  | I2C I2CCommunication

fun is_connected :: "transport \<Rightarrow> bool" where
  "is_connected (UART u) = uart_is_connected u"
| "is_connected (RS485 u) = rs485_is_connected u"
| "is_connected (CAN c) = can_is_connected c"
| "is_connected (I2C i) = i2c_is_connected i"

fun connect :: "device \<Rightarrow> transport \<Rightarrow> trace \<Rightarrow> (exn + unit) \<times> transport \<times> trace" where
  "connect dev (UART u) tr = (case uart_connect dev u tr of (r, u', tr') \<Rightarrow> (r, UART u', tr'))"
| "connect dev (RS485 u) tr = (case rs485_connect dev u tr of (r, u', tr') \<Rightarrow> (r, RS485 u', tr'))"
| "connect dev (CAN c) tr = (case can_connect dev c tr of (r, c', tr') \<Rightarrow> (r, CAN c', tr'))"
| "connect dev (I2C i) tr = (case i2c_connect dev i tr of (r, i', tr') \<Rightarrow> (r, I2C i', tr'))"

fun disconnect :: "device \<Rightarrow> transport \<Rightarrow> trace \<Rightarrow> (exn + unit) \<times> transport \<times> trace" where
  "disconnect dev (UART u) tr =
     (case uart_disconnect dev u tr of (r, u', tr') \<Rightarrow> (r, UART u', tr'))"
| "disconnect dev (RS485 u) tr =
     (case rs485_disconnect dev u tr of (r, u', tr') \<Rightarrow> (r, RS485 u', tr'))"
| "disconnect dev (CAN c) tr =
     (case can_disconnect dev c tr of (r, c', tr') \<Rightarrow> (r, CAN c', tr'))"
| "disconnect dev (I2C i) tr =
     (case i2c_disconnect dev i tr of (r, i', tr') \<Rightarrow> (r, I2C i', tr'))"

fun send_data ::
  "device \<Rightarrow> transport \<Rightarrow> trace \<Rightarrow> pystr \<Rightarrow> (exn + unit) \<times> transport \<times> trace" where
  "send_data dev (UART u) tr s =
     (case uart_send_data dev u tr s of (r, u', tr') \<Rightarrow> (r, UART u', tr'))"
| "send_data dev (RS485 u) tr s =
     (case rs485_send_data dev u tr s of (r, u', tr') \<Rightarrow> (r, RS485 u', tr'))"
| "send_data dev (CAN c) tr s =
     (case can_send_data dev c tr s 0x123 of (r, c', tr') \<Rightarrow> (r, CAN c', tr'))"
| "send_data dev (I2C i) tr s =
     (case i2c_send_data dev i tr (PStr s) None of (r, i', tr') \<Rightarrow> (r, I2C i', tr'))"

fun receive_data :: "device \<Rightarrow> transport \<Rightarrow> trace \<Rightarrow> (exn + rx) \<times> transport \<times> trace" where
  "receive_data dev (UART u) tr =
     (case uart_receive_data dev u tr None of (r, u', tr') \<Rightarrow> (map_sum id RxStr r, UART u', tr'))"
| "receive_data dev (RS485 u) tr =
     (case rs485_receive_data dev u tr of (r, u', tr') \<Rightarrow> (map_sum id RxStr r, RS485 u', tr'))"
| "receive_data dev (CAN c) tr =
     (case can_receive_data dev c tr 1 of
        (r, c', tr') \<Rightarrow>
          (map_sum id (\<lambda>v. case v of None \<Rightarrow> RxNone | Some s \<Rightarrow> RxStr s) r, CAN c', tr'))"
| "receive_data dev (I2C i) tr =
     (case i2c_receive_data dev i tr 1 None of (r, i', tr') \<Rightarrow> (map_sum id RxList r, I2C i', tr'))"

text \<open>
  A transport holds an OS handle when it stores an open serial port or a bus object.
\<close>

fun holds_handle :: "transport \<Rightarrow> bool" where
  "holds_handle (UART u) = (case uart_serial_conn u of None \<Rightarrow> False | Some s \<Rightarrow> is_open s)"
| "holds_handle (RS485 u) = (case rs485_serial_conn u of None \<Rightarrow> False | Some s \<Rightarrow> is_open s)"
| "holds_handle (CAN c) = (can_bus c \<noteq> None)"
| "holds_handle (I2C i) = (i2c_bus i \<noteq> None)"

text \<open>The calls that open an OS resource, and how many of them in a trace succeeded.\<close>

fun is_open_call :: "io_call \<Rightarrow> bool" where
  "is_open_call (Serial_open _ _ _) = True"
| "is_open_call (Can_Bus _ _ _) = True"
| "is_open_call (SMBus_open _) = True"
| "is_open_call _ = False"

definition opens :: "trace \<Rightarrow> nat" where
  "opens tr = length (filter (\<lambda>(c, r). is_open_call c \<and> r = None) tr)"

definition open_attempts :: "trace \<Rightarrow> nat" where
  "open_attempts tr = length (filter (\<lambda>(c, r). is_open_call c) tr)"

section \<open>The background receiver: \<open>CommunicationWorker\<close>\<close>

text \<open>
  The worker holds a reference to the transport of the window (\<open>self.comm\<close>) and the
  flag \<open>_is_running\<close>. In the model the transport is passed beside the worker. What
  the worker emits on its two signals is collected in a list.
\<close>

datatype signal = data_received pystr | error_occurred exn

record CommunicationWorker =
  is_running :: bool

text \<open>
  One pass through the body of the \<open>while\<close> loop of \<open>run\<close>: the signals emitted,
  and whether the loop goes on (\<open>True\<close>) or is left by \<open>break\<close> (\<open>False\<close>).
\<close>

definition run_body ::
  "device \<Rightarrow> transport \<Rightarrow> trace \<Rightarrow> (bool \<times> signal list) \<times> transport \<times> trace" where
  "run_body dev t tr =
     (case receive_data dev t tr of
        (Inr d, t', tr') \<Rightarrow>
          ((True, if truthy d then [data_received (py_str d)] else []), t',
           tr' @ [(QThread_msleep 50, None)])
      | (Inl e, t', tr') \<Rightarrow> ((False, [error_occurred e]), t', tr'))"

text \<open>
  The loop itself. Nothing inside the loop changes the flag, so it ends only by
  \<open>break\<close>; a run that never ends has the value \<open>None\<close>.
\<close>

partial_function (option) run_loop ::
  "device \<Rightarrow> CommunicationWorker \<Rightarrow> transport \<Rightarrow> trace \<Rightarrow> signal list \<Rightarrow>
     (CommunicationWorker \<times> transport \<times> trace \<times> signal list) option" where
  "run_loop dev w t tr out =
     (if is_running w then
        (case run_body dev t tr of
           ((go_on, sigs), t', tr') \<Rightarrow>
             if go_on then run_loop dev w t' tr' (out @ sigs)
             else Some (w, t', tr', out @ sigs))
      else Some (w, t, tr, out))"

definition run ::
  "device \<Rightarrow> CommunicationWorker \<Rightarrow> transport \<Rightarrow> trace \<Rightarrow>
     (CommunicationWorker \<times> transport \<times> trace \<times> signal list) option" where
  "run dev w t tr = run_loop dev (w\<lparr>is_running := True\<rparr>) t tr []"

definition stop :: "CommunicationWorker \<Rightarrow> CommunicationWorker" where
  "stop w = w\<lparr>is_running := False\<rparr>"

section \<open>The session controller: \<open>MainWindow\<close>\<close>

text \<open>
  Of the window, the state that the connection handling reads and writes. A thread is
  running or, after \<open>quit()\<close> and \<open>wait()\<close>, finished. Log lines and message boxes
  are kept by kind.
\<close>

datatype QThread = Thread_running | Thread_finished

datatype log_entry =
    Log_received pystr
  | Log_error signal
  | Log_disconnected

record MainWindow =
  comm_instance :: "transport option"
  worker_thread :: "QThread option"
  comm_worker :: "CommunicationWorker option"
  log_display :: "log_entry list"
  message_boxes :: "signal list"
  connect_button_shows_disconnect :: bool
  protocol_combo_enabled :: bool
  send_pid_button_enabled :: bool
  open_param_window_button_enabled :: bool

definition log :: "MainWindow \<Rightarrow> log_entry \<Rightarrow> MainWindow" where
  "log mw entry = mw\<lparr>log_display := log_display mw @ [entry]\<rparr>"

text \<open>
  \<open>disconnect_device\<close>: stop the worker, end the thread, disconnect the transport,
  then log, clear \<open>comm_instance\<close> and reset the buttons. An exception of the
  transport's \<open>disconnect\<close> leaves the method before the log line.
\<close>

definition disconnect_device ::
  "device \<Rightarrow> MainWindow \<Rightarrow> trace \<Rightarrow> (exn + unit) \<times> MainWindow \<times> trace" where
  "disconnect_device dev mw tr =
     (let mw1 = mw\<lparr>comm_worker := map_option stop (comm_worker mw)\<rparr>;
          mw2 = mw1\<lparr>worker_thread := map_option (\<lambda>_. Thread_finished) (worker_thread mw1)\<rparr>;
          finish = (\<lambda>m. (log m Log_disconnected)
                      \<lparr>comm_instance := None,
                       connect_button_shows_disconnect := False,
                       protocol_combo_enabled := True,
                       send_pid_button_enabled := False,
                       open_param_window_button_enabled := False\<rparr>)
      in case comm_instance mw2 of
           None \<Rightarrow> (Inr (), finish mw2, tr)
         | Some t \<Rightarrow>
             (case disconnect dev t tr of
                (Inl e, t', tr') \<Rightarrow> (Inl e, mw2\<lparr>comm_instance := Some t'\<rparr>, tr')
              | (Inr _, t', tr') \<Rightarrow> (Inr (), finish (mw2\<lparr>comm_instance := Some t'\<rparr>), tr')))"

text \<open>
  \<open>handle_comm_error\<close> is the slot connected to the worker's \<open>error_occurred\<close>
  signal, \<open>log\<close> the slot connected to \<open>data_received\<close>.
\<close>

definition handle_comm_error ::
  "device \<Rightarrow> MainWindow \<Rightarrow> trace \<Rightarrow> signal \<Rightarrow> (exn + unit) \<times> MainWindow \<times> trace" where
  "handle_comm_error dev mw tr error_message =
     (case disconnect_device dev (log mw (Log_error error_message)) tr of
        (Inl e, mw', tr') \<Rightarrow> (Inl e, mw', tr')
      | (Inr _, mw', tr') \<Rightarrow>
          (Inr (), mw'\<lparr>message_boxes := message_boxes mw' @ [error_message]\<rparr>, tr'))"

fun deliver ::
  "device \<Rightarrow> MainWindow \<Rightarrow> trace \<Rightarrow> signal \<Rightarrow> (exn + unit) \<times> MainWindow \<times> trace" where
  "deliver dev mw tr (data_received s) = (Inr (), log mw (Log_received s), tr)"
| "deliver dev mw tr (error_occurred e) = handle_comm_error dev mw tr (error_occurred e)"

section \<open>A loopback endpoint\<close>

text \<open>
  The device used for the round trip: a serial line whose far end sends every byte
  back. No call raises. The bytes written and not yet read are pending; \<open>readline\<close>
  returns the pending bytes up to and including the first line feed, \<open>read(n)\<close> the
  first \<open>n\<close> of them.
\<close>

definition first_line :: "pybytes \<Rightarrow> pybytes" where
  "first_line bs = takeWhile (\<lambda>b. b \<noteq> 0x0A) bs @ take 1 (dropWhile (\<lambda>b. b \<noteq> 0x0A) bs)"

fun loopback_step :: "pybytes \<Rightarrow> io_call \<times> exn option \<Rightarrow> pybytes" where
  "loopback_step buf (Serial_write bs, None) = buf @ bs"
| "loopback_step buf (Serial_readline, None) = drop (length (first_line buf)) buf"
| "loopback_step buf (Serial_read n, None) = drop (nat n) buf"
| "loopback_step buf _ = buf"

definition pending :: "trace \<Rightarrow> pybytes" where
  "pending tr = foldl loopback_step [] tr"

fun loopback_bytes :: "trace \<Rightarrow> io_call \<Rightarrow> pybytes" where
  "loopback_bytes tr Serial_readline = first_line (pending tr)"
| "loopback_bytes tr (Serial_read n) = take (nat n) (pending tr)"
| "loopback_bytes tr _ = []"

definition loopback :: device where
  "loopback =
     \<lparr>raises = (\<lambda>_ _. None), serial_bytes = loopback_bytes, can_frame = (\<lambda>_ _. None),
      smbus_int = (\<lambda>_ _. 0), smbus_block = (\<lambda>_ _. [])\<rparr>"

section \<open>Devices and call sequences used in the statements\<close>


fun is_read_call :: "io_call \<Rightarrow> bool" where
  "is_read_call (Serial_read _) = True"
| "is_read_call Serial_readline = True"
| "is_read_call (Can_recv _) = True"
| "is_read_call (SMBus_read_byte _) = True"
| "is_read_call (SMBus_read_i2c_block_data _ _ _) = True"
| "is_read_call _ = False"

text \<open>The loopback endpoint, except that the calls selected by \<open>p\<close> raise \<open>e\<close>.\<close>

definition raising :: "(io_call \<Rightarrow> bool) \<Rightarrow> exn \<Rightarrow> device" where
  "raising p e = loopback\<lparr>raises := (\<lambda>tr c. if p c then Some e else None)\<rparr>"


text \<open>
  The methods of the I2C transport other than \<open>disconnect\<close>, and a sequence of such
  calls, each against a device of its own; exceptions are dropped, as a caller that
  catches them does.
\<close>

datatype i2c_op =
    Op_connect
  | Op_is_connected
  | Op_send_data i2c_payload "int option"
  | Op_receive_data int "int option"

fun i2c_apply :: "device \<Rightarrow> i2c_op \<Rightarrow> I2CCommunication \<times> trace \<Rightarrow> I2CCommunication \<times> trace"
  where
  "i2c_apply dev Op_connect (i, tr) = snd (i2c_connect dev i tr)"
| "i2c_apply dev Op_is_connected (i, tr) = (i, tr)"
| "i2c_apply dev (Op_send_data p reg) (i, tr) = snd (i2c_send_data dev i tr p reg)"
| "i2c_apply dev (Op_receive_data n reg) (i, tr) = snd (i2c_receive_data dev i tr n reg)"

fun i2c_apply_all ::
  "(device \<times> i2c_op) list \<Rightarrow> I2CCommunication \<times> trace \<Rightarrow> I2CCommunication \<times> trace" where
  "i2c_apply_all [] st = st"
| "i2c_apply_all ((dev, op) # ops) st = i2c_apply_all ops (i2c_apply dev op st)"

text \<open>
  The receive timeout elapsing with nothing available, as the reply of the library to
  the call that \<open>receive_data()\<close> makes: \<open>readline\<close> returns the empty \<open>bytes\<close>,
  \<open>recv\<close> returns \<open>None\<close>. The \<open>read_byte\<close> of smbus takes no timeout and
  returns an integer whenever it returns, so the I2C transport has no such reply.
\<close>

fun timed_out_empty :: "device \<Rightarrow> transport \<Rightarrow> trace \<Rightarrow> bool" where
  "timed_out_empty dev (UART u) tr =
     (raises dev tr Serial_readline = None \<and> serial_bytes dev tr Serial_readline = [])"
| "timed_out_empty dev (RS485 u) tr =
     (raises dev tr Serial_readline = None \<and> serial_bytes dev tr Serial_readline = [])"
| "timed_out_empty dev (CAN c) tr =
     (raises dev tr (Can_recv 1) = None \<and> can_frame dev tr (Can_recv 1) = None)"
| "timed_out_empty dev (I2C i) tr = False"

text \<open>The library call that \<open>receive_data()\<close> makes first.\<close>

fun receive_call :: "transport \<Rightarrow> io_call" where
  "receive_call (UART u) = Serial_readline"
| "receive_call (RS485 u) = Serial_readline"
| "receive_call (CAN c) = Can_recv 1"
| "receive_call (I2C i) = SMBus_read_byte (i2c_device_address i)"

text \<open>
  A window in the state that \<open>connect_device\<close> leaves behind: a connected UART
  transport, a running thread and its worker.
\<close>

definition example_window :: MainWindow where
  "example_window = \<lparr>comm_instance = Some (UART ((uart_init (str_lit ''/dev/ttyUSB0'') 115200 1)
                  \<lparr>uart_serial_conn := Some \<lparr>is_open = True\<rparr>\<rparr>)),
          worker_thread = Some Thread_running,
          comm_worker = Some \<lparr>is_running = True\<rparr>,
          log_display = [], message_boxes = [],
          connect_button_shows_disconnect = True, protocol_combo_enabled = False,
          send_pid_button_enabled = True, open_param_window_button_enabled = True\<rparr>"

text \<open>
  The library call with which \<open>disconnect()\<close> releases the handle, and the calls
  that either read or release.
\<close>

fun close_call :: "transport \<Rightarrow> io_call" where
  "close_call (UART u) = Serial_close"
| "close_call (RS485 u) = Serial_close"
| "close_call (CAN c) = Can_shutdown"
| "close_call (I2C i) = SMBus_close"

fun is_close_call :: "io_call \<Rightarrow> bool" where
  "is_close_call Serial_close = True"
| "is_close_call Can_shutdown = True"
| "is_close_call SMBus_close = True"
| "is_close_call _ = False"

definition is_read_or_close_call :: "io_call \<Rightarrow> bool" where
  "is_read_or_close_call c = (is_read_call c \<or> is_close_call c)"

section \<open>Properties\<close>

subsection \<open>Sending and receiving while disconnected\<close>

lemma uart_send_data_disconnected:
  "\<not> uart_is_connected u \<Longrightarrow> uart_send_data dev u tr s = (Inl ConnectionError, u, tr)"
  by (simp add: uart_send_data_def)

lemma uart_receive_data_disconnected:
  "\<not> uart_is_connected u \<Longrightarrow> uart_receive_data dev u tr n = (Inl ConnectionError, u, tr)"
  by (simp add: uart_receive_data_def)

lemma rs485_send_data_disconnected:
  "\<not> rs485_is_connected u \<Longrightarrow> rs485_send_data dev u tr s = (Inl ConnectionError, u, tr)"
  by (simp add: rs485_send_data_def)

lemma rs485_receive_data_disconnected:
  "\<not> rs485_is_connected u \<Longrightarrow> rs485_receive_data dev u tr = (Inl ConnectionError, u, tr)"
  by (simp add: rs485_receive_data_def)

lemma can_send_data_disconnected:
  "\<not> can_is_connected c \<Longrightarrow> can_send_data dev c tr s a = (Inl ConnectionError, c, tr)"
  by (simp add: can_send_data_def)

lemma can_receive_data_disconnected:
  "\<not> can_is_connected c \<Longrightarrow> can_receive_data dev c tr tmo = (Inl ConnectionError, c, tr)"
  by (simp add: can_receive_data_def)

lemma i2c_send_data_disconnected:
  "\<not> i2c_is_connected i \<Longrightarrow> i2c_send_data dev i tr p reg = (Inl ConnectionError, i, tr)"
  by (simp add: i2c_send_data_def)

lemma i2c_receive_data_disconnected:
  "\<not> i2c_is_connected i \<Longrightarrow> i2c_receive_data dev i tr n reg = (Inl ConnectionError, i, tr)"
  by (simp add: i2c_receive_data_def)

text \<open>
  Claim C1. For each of the four transports, \<open>send_data\<close> and \<open>receive_data\<close>
  called while \<open>is_connected()\<close> is false raise \<open>ConnectionError\<close>; the trace of
  library calls and the object are as before the call, so no I/O took place.
\<close>

theorem disconnected_send_receive_raise:
  "\<not> is_connected t \<Longrightarrow>
     send_data dev t tr s = (Inl ConnectionError, t, tr) \<and>
     receive_data dev t tr = (Inl ConnectionError, t, tr)"
  by (cases t)
     (simp_all add: uart_send_data_disconnected uart_receive_data_disconnected
        rs485_send_data_disconnected rs485_receive_data_disconnected
        can_send_data_disconnected can_receive_data_disconnected
        i2c_send_data_disconnected i2c_receive_data_disconnected)

theorem disconnected_send_receive_raise_witness:
  "\<not> is_connected (CAN (can_init (str_lit ''can0'') 500000 (str_lit ''socketcan''))) \<and>
   send_data loopback (CAN (can_init (str_lit ''can0'') 500000 (str_lit ''socketcan''))) []
       (str_lit ''PID'') =
     (Inl ConnectionError, CAN (can_init (str_lit ''can0'') 500000 (str_lit ''socketcan'')), []) \<and>
   receive_data loopback (CAN (can_init (str_lit ''can0'') 500000 (str_lit ''socketcan''))) [] =
     (Inl ConnectionError, CAN (can_init (str_lit ''can0'') 500000 (str_lit ''socketcan'')), [])"
  using disconnected_send_receive_raise
    [of "CAN (can_init (str_lit ''can0'') 500000 (str_lit ''socketcan''))" loopback "[]"
        "str_lit ''PID''"]
  by (simp add: can_init_def can_is_connected_def)

subsection \<open>What \<open>send_data\<close> writes\<close>

lemma uart_send_data_connected:
  "uart_is_connected u \<Longrightarrow> utf8_encode s = Inr bs \<Longrightarrow>
   uart_send_data dev u tr s =
     ((case raises dev tr (Serial_write bs) of
         None \<Rightarrow> Inr ()
       | Some e \<Rightarrow> Inl (if is_SerialTimeoutException e then TimeoutError else e)),
      u, tr @ [(Serial_write bs, raises dev tr (Serial_write bs))])"
  by (simp add: uart_send_data_def lib_call_def split: option.split)

lemma rs485_send_data_connected:
  "rs485_is_connected u \<Longrightarrow> utf8_encode s = Inr bs \<Longrightarrow>
   rs485_send_data dev u tr s =
     (case raises dev tr (Serial_write bs) of
        Some e \<Rightarrow>
          (Inl (if is_SerialTimeoutException e then TimeoutError else e), u,
           tr @ [(Serial_write bs, Some e)])
      | None \<Rightarrow>
          ((case raises dev (tr @ [(Serial_write bs, None)]) Serial_flush of
              None \<Rightarrow> Inr ()
            | Some e \<Rightarrow> Inl (if is_SerialTimeoutException e then TimeoutError else e)),
           u,
           tr @ [(Serial_write bs, None),
                 (Serial_flush, raises dev (tr @ [(Serial_write bs, None)]) Serial_flush)]))"
  by (simp add: rs485_send_data_def lib_call_def split: option.split)

lemma can_send_data_connected:
  "can_is_connected c \<Longrightarrow> utf8_encode s = Inr bs \<Longrightarrow>
   can_send_data dev c tr s a =
     ((case raises dev tr (Can_send a bs False) of
         None \<Rightarrow> Inr ()
       | Some e \<Rightarrow> Inl (if is_CanError e then IOError else e)),
      c, tr @ [(Can_send a bs False, raises dev tr (Can_send a bs False))])"
  by (simp add: can_send_data_def lib_call_def split: option.split)

lemma i2c_send_data_str_no_register:
  "i2c_is_connected i \<Longrightarrow>
   i2c_send_data dev i tr (PStr s) None =
     (case s of
        [] \<Rightarrow> (Inr (), i, tr)
      | c # _ \<Rightarrow>
          ((case raises dev tr (SMBus_write_byte (i2c_device_address i) (int c)) of
              None \<Rightarrow> Inr ()
            | Some e \<Rightarrow> Inl (if is_IOError e then IOError else e)),
           i,
           tr @ [(SMBus_write_byte (i2c_device_address i) (int c),
                  raises dev tr (SMBus_write_byte (i2c_device_address i) (int c)))]))"
  by (simp add: i2c_send_data_def lib_call_def split: option.split list.split)

lemma i2c_send_data_str_register:
  "i2c_is_connected i \<Longrightarrow>
   i2c_send_data dev i tr (PStr s) (Some reg) =
     ((case raises dev tr (SMBus_write_i2c_block_data (i2c_device_address i) reg (map int s)) of
         None \<Rightarrow> Inr ()
       | Some e \<Rightarrow> Inl (if is_IOError e then IOError else e)),
      i,
      tr @ [(SMBus_write_i2c_block_data (i2c_device_address i) reg (map int s),
             raises dev tr (SMBus_write_i2c_block_data (i2c_device_address i) reg (map int s)))])"
  by (simp add: i2c_send_data_def lib_call_def split: option.split)

text \<open>
  Claim C2. For every transport in state Connected and every string payload,
  \<open>send_data\<close> encodes the payload to UTF-8 and writes the whole byte sequence in one
  call. The UART, RS485 and CAN transports do so, and so does the register path of the
  I2C transport with the code points of the string (lemmas above). The I2C transport
  called without a register, as the application calls it, does not, although its
  docstring says that it then writes a block of data: it sends \<open>"AB"\<close>, whose
  encoding is the two bytes 0x41 0x42, as the single byte 0x41.
\<close>

theorem send_data_i2c_first_byte_only:
  "utf8_encode (str_lit ''AB'') = Inr [0x41, 0x42] \<and>
   is_connected (I2C \<lparr>i2c_bus_number = 1, i2c_device_address = 0x42,
                      i2c_bus = Some SMBus, i2c_connected = True\<rparr>) \<and>
   send_data loopback
      (I2C \<lparr>i2c_bus_number = 1, i2c_device_address = 0x42,
            i2c_bus = Some SMBus, i2c_connected = True\<rparr>) [] (str_lit ''AB'') =
     (Inr (),
      I2C \<lparr>i2c_bus_number = 1, i2c_device_address = 0x42,
           i2c_bus = Some SMBus, i2c_connected = True\<rparr>,
      [(SMBus_write_byte 0x42 0x41, None)])"
  by (simp add: str_lit_def utf8_encode_cp_def i2c_send_data_def i2c_is_connected_def
        lib_call_def loopback_def)

subsection \<open>Releasing the handle\<close>


lemma disconnect_no_handle:
  "\<not> holds_handle t \<Longrightarrow> \<not> is_connected t \<Longrightarrow> disconnect dev t tr = (Inr (), t, tr)"
  by (cases t)
     (auto simp: uart_disconnect_def rs485_disconnect_def can_disconnect_def i2c_disconnect_def
        uart_is_connected_def rs485_is_connected_def can_is_connected_def i2c_is_connected_def
        split: option.splits)




lemma disconnect_closes:
  "holds_handle t \<Longrightarrow> raises dev tr (close_call t) = None \<Longrightarrow>
   fst (disconnect dev t tr) = Inr () \<and>
   snd (snd (disconnect dev t tr)) = tr @ [(close_call t, None)] \<and>
   \<not> is_connected (fst (snd (disconnect dev t tr))) \<and>
   \<not> holds_handle (fst (snd (disconnect dev t tr)))"
  by (cases t)
     (auto simp: uart_disconnect_def rs485_disconnect_def can_disconnect_def i2c_disconnect_def
        uart_is_connected_def rs485_is_connected_def can_is_connected_def i2c_is_connected_def
        lib_call_def split: option.splits)

lemma disconnect_close_raises:
  "holds_handle t \<Longrightarrow> raises dev tr (close_call t) = Some e \<Longrightarrow>
   disconnect dev t tr = (Inl e, t, tr @ [(close_call t, Some e)])"
  by (cases t)
     (auto simp: uart_disconnect_def rs485_disconnect_def can_disconnect_def i2c_disconnect_def
        lib_call_def split: option.splits)

lemma disconnect_without_handle:
  "\<not> holds_handle t \<Longrightarrow>
   fst (disconnect dev t tr) = Inr () \<and>
   snd (snd (disconnect dev t tr)) = tr \<and>
   \<not> is_connected (fst (snd (disconnect dev t tr))) \<and>
   \<not> holds_handle (fst (snd (disconnect dev t tr)))"
  by (cases t)
     (auto simp: uart_disconnect_def rs485_disconnect_def can_disconnect_def i2c_disconnect_def
        uart_is_connected_def rs485_is_connected_def can_is_connected_def i2c_is_connected_def
        split: option.splits)









subsection \<open>Constructing an I2C transport\<close>

lemma i2c_init_connect:
  "i2c_init b a = Inr i \<Longrightarrow> raises dev tr (SMBus_open b) = None \<Longrightarrow>
   snd (snd (i2c_connect dev i tr)) =
     tr @ [(SMBus_open b, None),
           (SMBus_read_byte a, raises dev (tr @ [(SMBus_open b, None)]) (SMBus_read_byte a))]"
  by (auto simp: i2c_init_def i2c_connect_def lib_call_def Let_def split: option.splits)

text \<open>
  Claim C4 as stated, that constructing an I2C transport with device address 200 fails
  with a \<open>ConfigError\<close> before any I/O, fails: the construction succeeds, and
  \<open>connect()\<close> on the object opens bus 1 and probes address 200 on it.
\<close>

theorem i2c_init_address_200:
  "i2c_init 1 200 =
     Inr \<lparr>i2c_bus_number = 1, i2c_device_address = 200, i2c_bus = None,
          i2c_connected = False\<rparr> \<and>
   i2c_connect loopback
      \<lparr>i2c_bus_number = 1, i2c_device_address = 200, i2c_bus = None,
       i2c_connected = False\<rparr> [] =
     (Inr (),
      \<lparr>i2c_bus_number = 1, i2c_device_address = 200, i2c_bus = Some SMBus,
       i2c_connected = True\<rparr>,
      [(SMBus_open 1, None), (SMBus_read_byte 200, None)])"
  by (simp add: i2c_init_def i2c_connect_def lib_call_def loopback_def)

text \<open>
  Claim C4, amended. Constructing an I2C transport never fails, whatever the device
  address: the address is stored as given, the object starts without a bus and
  disconnected, and the construction makes no library call. The address first reaches
  the bus library in \<open>connect()\<close>, which opens the bus and, when that did not raise,
  probes the address with \<open>read_byte\<close>.
\<close>

theorem i2c_init_any_address:
  "i2c_init b a =
     Inr \<lparr>i2c_bus_number = b, i2c_device_address = a, i2c_bus = None,
          i2c_connected = False\<rparr> \<and>
   (raises dev tr (SMBus_open b) = None \<longrightarrow>
      snd (snd (i2c_connect dev
         \<lparr>i2c_bus_number = b, i2c_device_address = a, i2c_bus = None,
          i2c_connected = False\<rparr> tr)) =
        tr @ [(SMBus_open b, None),
              (SMBus_read_byte a,
               raises dev (tr @ [(SMBus_open b, None)]) (SMBus_read_byte a))])"
  using i2c_init_connect [of b a _ dev tr] by (simp add: i2c_init_def)

theorem i2c_init_any_address_witness:
  "raises loopback [] (SMBus_open 1) = None \<and>
   i2c_init 1 200 =
     Inr \<lparr>i2c_bus_number = 1, i2c_device_address = 200, i2c_bus = None,
          i2c_connected = False\<rparr> \<and>
   snd (snd (i2c_connect loopback
      \<lparr>i2c_bus_number = 1, i2c_device_address = 200, i2c_bus = None,
       i2c_connected = False\<rparr> [])) =
     [(SMBus_open 1, None), (SMBus_read_byte 200, None)]"
  using i2c_init_any_address [of 1 200 loopback "[]"]
  by (simp add: loopback_def)

subsection \<open>Connecting twice\<close>

lemma connect_open_attempts:
  "connect dev t tr = (r, t', tr') \<Longrightarrow> open_attempts tr' \<le> Suc (open_attempts tr)"
  by (cases t)
     (auto simp: uart_connect_def rs485_connect_def can_connect_def i2c_connect_def
        lib_call_def Let_def open_attempts_def split: if_splits option.splits prod.splits)

lemma opens_append: "opens (tr @ tr') = opens tr + opens tr'"
  by (simp add: opens_def)

lemma connect_returns_handle:
  "connect dev t tr = (Inr x, t', tr') \<Longrightarrow> holds_handle t'"
  by (cases t)
     (auto simp: uart_connect_def rs485_connect_def can_connect_def i2c_connect_def
        lib_call_def Let_def split: if_splits option.splits prod.splits)

lemma connect_holding_handle:
  "holds_handle t \<Longrightarrow> connect dev t tr = (Inr (), t, tr)"
  by (cases t)
     (auto simp: uart_connect_def rs485_connect_def can_connect_def i2c_connect_def)

lemma connect_opens:
  "connect dev t tr = (r, t', tr') \<Longrightarrow>
     opens tr' \<le> Suc (opens tr) \<and> (opens tr' = Suc (opens tr) \<longrightarrow> holds_handle t')"
  by (cases t)
     (auto simp: uart_connect_def rs485_connect_def can_connect_def i2c_connect_def
        lib_call_def Let_def opens_def split: if_splits option.splits prod.splits)

lemma connect_twice_opens:
  assumes "connect dev t tr = (r, t', tr')" and "connect dev t' tr' = (r', t'', tr'')"
  shows "opens tr'' \<le> Suc (opens tr)"
proof (cases "holds_handle t'")
  case True
  with assms(2) have "tr'' = tr'" by (simp add: connect_holding_handle)
  with assms(1) show ?thesis using connect_opens by blast
next
  case False
  with assms(1) have "opens tr' \<le> opens tr"
    using connect_opens [of dev t tr r t' tr'] by auto
  moreover from assms(2) have "opens tr'' \<le> Suc (opens tr')"
    using connect_opens by blast
  ultimately show ?thesis by simp
qed

text \<open>
  Claim C5. For every transport: a \<open>connect()\<close> that follows a \<open>connect()\<close> which
  returned makes no library call and changes nothing, as does any \<open>connect()\<close> on a
  connected transport holding its handle; one \<open>connect()\<close> attempts at most one open;
  and two \<open>connect()\<close> calls in a row, whatever the first one did, open the OS
  resource at most once.
\<close>

theorem connect_twice:
  "(connect dev t tr = (Inr x, t', tr') \<longrightarrow> connect dev t' tr' = (Inr (), t', tr')) \<and>
   (is_connected t \<and> holds_handle t \<longrightarrow> connect dev t tr = (Inr (), t, tr)) \<and>
   (connect dev t tr = (r, ta, tra) \<longrightarrow> open_attempts tra \<le> Suc (open_attempts tr)) \<and>
   (connect dev t tr = (r, ta, tra) \<and> connect dev ta tra = (rb, tb, trb) \<longrightarrow>
      opens trb \<le> Suc (opens tr))"
proof -
  have a: "connect dev t tr = (Inr x, t', tr') \<longrightarrow> connect dev t' tr' = (Inr (), t', tr')"
    using connect_returns_handle connect_holding_handle by blast
  have b: "is_connected t \<and> holds_handle t \<longrightarrow> connect dev t tr = (Inr (), t, tr)"
    using connect_holding_handle by blast
  have c: "connect dev t tr = (r, ta, tra) \<longrightarrow> open_attempts tra \<le> Suc (open_attempts tr)"
    using connect_open_attempts by blast
  have d: "connect dev t tr = (r, ta, tra) \<and> connect dev ta tra = (rb, tb, trb) \<longrightarrow>
      opens trb \<le> Suc (opens tr)"
    using connect_twice_opens by blast
  show ?thesis
    by (rule conjI [OF a conjI [OF b conjI [OF c d]]])
qed

theorem connect_twice_witness:
  "connect loopback (UART (uart_init (str_lit ''/dev/ttyUSB0'') 115200 1)) [] =
     (Inr (),
      UART ((uart_init (str_lit ''/dev/ttyUSB0'') 115200 1)
         \<lparr>uart_serial_conn := Some \<lparr>is_open = True\<rparr>\<rparr>),
      [(Serial_open (str_lit ''/dev/ttyUSB0'') 115200 1, None)]) \<and>
   is_connected (UART ((uart_init (str_lit ''/dev/ttyUSB0'') 115200 1)
      \<lparr>uart_serial_conn := Some \<lparr>is_open = True\<rparr>\<rparr>)) \<and>
   holds_handle (UART ((uart_init (str_lit ''/dev/ttyUSB0'') 115200 1)
      \<lparr>uart_serial_conn := Some \<lparr>is_open = True\<rparr>\<rparr>)) \<and>
   connect loopback
      (UART ((uart_init (str_lit ''/dev/ttyUSB0'') 115200 1)
         \<lparr>uart_serial_conn := Some \<lparr>is_open = True\<rparr>\<rparr>))
      [(Serial_open (str_lit ''/dev/ttyUSB0'') 115200 1, None)] =
     (Inr (),
      UART ((uart_init (str_lit ''/dev/ttyUSB0'') 115200 1)
         \<lparr>uart_serial_conn := Some \<lparr>is_open = True\<rparr>\<rparr>),
      [(Serial_open (str_lit ''/dev/ttyUSB0'') 115200 1, None)]) \<and>
   opens [(Serial_open (str_lit ''/dev/ttyUSB0'') 115200 1, None)] \<le> Suc (opens [])"
  using connect_twice
    [where dev = loopback and t = "UART (uart_init (str_lit ''/dev/ttyUSB0'') 115200 1)"
       and tr = "[]" and x = "()" and r = "Inr ()" and rb = "Inr ()"
       and t' = "UART ((uart_init (str_lit ''/dev/ttyUSB0'') 115200 1)
                   \<lparr>uart_serial_conn := Some \<lparr>is_open = True\<rparr>\<rparr>)"
       and ta = "UART ((uart_init (str_lit ''/dev/ttyUSB0'') 115200 1)
                   \<lparr>uart_serial_conn := Some \<lparr>is_open = True\<rparr>\<rparr>)"
       and tb = "UART ((uart_init (str_lit ''/dev/ttyUSB0'') 115200 1)
                   \<lparr>uart_serial_conn := Some \<lparr>is_open = True\<rparr>\<rparr>)"
       and tr' = "[(Serial_open (str_lit ''/dev/ttyUSB0'') 115200 1, None)]"
       and tra = "[(Serial_open (str_lit ''/dev/ttyUSB0'') 115200 1, None)]"
       and trb = "[(Serial_open (str_lit ''/dev/ttyUSB0'') 115200 1, None)]"]
  by (simp add: uart_init_def uart_connect_def uart_is_connected_def lib_call_def
        loopback_def opens_def)

subsection \<open>An I2C probe that fails\<close>

lemma i2c_connect_probe_fails:
  assumes "i2c_bus i = None"
    and "raises dev tr (SMBus_open (i2c_bus_number i)) = None"
    and "raises dev (tr @ [(SMBus_open (i2c_bus_number i), None)])
           (SMBus_read_byte (i2c_device_address i)) = Some e"
    and "is_IOError e"
  shows "i2c_connect dev i tr =
     (Inl ConnectionError, i\<lparr>i2c_bus := Some SMBus, i2c_connected := False\<rparr>,
      tr @ [(SMBus_open (i2c_bus_number i), None),
            (SMBus_read_byte (i2c_device_address i), Some e)])"
  using assms by (simp add: i2c_connect_def lib_call_def)

lemma i2c_apply_stuck:
  "i2c_bus i \<noteq> None \<Longrightarrow> \<not> i2c_connected i \<Longrightarrow> i2c_apply dev op (i, tr) = (i, tr)"
  by (cases op)
     (simp_all add: i2c_connect_def i2c_send_data_def i2c_receive_data_def i2c_is_connected_def)

lemma i2c_apply_all_stuck:
  "i2c_bus i \<noteq> None \<Longrightarrow> \<not> i2c_connected i \<Longrightarrow> i2c_apply_all ops (i, tr) = (i, tr)"
proof (induction ops)
  case Nil
  show ?case by simp
next
  case (Cons a ops)
  obtain dev op where a: "a = (dev, op)" by (cases a)
  from Cons show ?case by (simp add: a i2c_apply_stuck)
qed

lemma i2c_connect_stuck:
  "i2c_bus i \<noteq> None \<Longrightarrow> i2c_connect dev i tr = (Inr (), i, tr)"
  by (simp add: i2c_connect_def)

lemma i2c_connect_retries:
  "i2c_bus i = None \<Longrightarrow>
     take (Suc (length tr)) (snd (snd (i2c_connect dev i tr))) =
       tr @ [(SMBus_open (i2c_bus_number i), raises dev tr (SMBus_open (i2c_bus_number i)))]"
  by (auto simp: i2c_connect_def lib_call_def Let_def split: option.splits)

lemma i2c_connect_succeeds:
  "i2c_bus i = None \<Longrightarrow> raises dev tr (SMBus_open (i2c_bus_number i)) = None \<Longrightarrow>
   raises dev (tr @ [(SMBus_open (i2c_bus_number i), None)])
      (SMBus_read_byte (i2c_device_address i)) = None \<Longrightarrow>
   i2c_connect dev i tr =
     (Inr (), i\<lparr>i2c_bus := Some SMBus, i2c_connected := True\<rparr>,
      tr @ [(SMBus_open (i2c_bus_number i), None),
            (SMBus_read_byte (i2c_device_address i), None)])"
  by (simp add: i2c_connect_def lib_call_def)

lemma i2c_disconnect_closes:
  "i2c_bus i \<noteq> None \<Longrightarrow> raises dev tr SMBus_close = None \<Longrightarrow>
   i2c_disconnect dev i tr =
     (Inr (), i\<lparr>i2c_bus := None, i2c_connected := False\<rparr>, tr @ [(SMBus_close, None)])"
  by (simp add: i2c_disconnect_def lib_call_def)

lemma i2c_disconnect_close_raises:
  "i2c_bus i \<noteq> None \<Longrightarrow> raises dev tr SMBus_close = Some e \<Longrightarrow>
   i2c_disconnect dev i tr = (Inl e, i, tr @ [(SMBus_close, Some e)])"
  by (simp add: i2c_disconnect_def lib_call_def)

text \<open>
  Claim C10. When \<open>connect()\<close> of the I2C transport opens the bus and the probe
  raises an \<open>IOError\<close>, \<open>connect()\<close> raises \<open>ConnectionError\<close> and the bus
  stays stored in the object, which is not connected. From then on every
  \<open>connect()\<close>, against any device, returns at once without a library call and
  without raising; every sequence of calls of \<open>connect\<close>, \<open>is_connected\<close>,
  \<open>send_data\<close> and \<open>receive_data\<close> leaves object and trace as they are, so the
  transport stays disconnected. A \<open>disconnect()\<close> whose \<open>close\<close> raises changes
  nothing either. A \<open>disconnect()\<close> whose \<open>close\<close> does not raise returns and
  clears the bus; the next \<open>connect()\<close> then opens the bus again, and connects when
  bus and probe answer.
\<close>

theorem i2c_failed_probe_blocks_connect:
  assumes "i2c_bus i = None"
    and "raises dev tr (SMBus_open (i2c_bus_number i)) = None"
    and "raises dev (tr @ [(SMBus_open (i2c_bus_number i), None)])
           (SMBus_read_byte (i2c_device_address i)) = Some e"
    and "is_IOError e"
    and "i' = i\<lparr>i2c_bus := Some SMBus, i2c_connected := False\<rparr>"
    and "j = i'\<lparr>i2c_bus := None, i2c_connected := False\<rparr>"
  shows "i2c_connect dev i tr =
           (Inl ConnectionError, i',
            tr @ [(SMBus_open (i2c_bus_number i), None),
                  (SMBus_read_byte (i2c_device_address i), Some e)]) \<and>
         i2c_bus i' = Some SMBus \<and> \<not> i2c_is_connected i' \<and>
         (\<forall>dev' tr'. i2c_connect dev' i' tr' = (Inr (), i', tr')) \<and>
         (\<forall>ops tr'. i2c_apply_all ops (i', tr') = (i', tr')) \<and>
         (\<forall>dev' tr' ec. raises dev' tr' SMBus_close = Some ec \<longrightarrow>
            i2c_disconnect dev' i' tr' = (Inl ec, i', tr' @ [(SMBus_close, Some ec)])) \<and>
         (\<forall>dev' tr'. raises dev' tr' SMBus_close = None \<longrightarrow>
            i2c_disconnect dev' i' tr' = (Inr (), j, tr' @ [(SMBus_close, None)])) \<and>
         i2c_bus j = None \<and> \<not> i2c_is_connected j \<and>
         (\<forall>dev' tr'.
            take (Suc (length tr')) (snd (snd (i2c_connect dev' j tr'))) =
              tr' @ [(SMBus_open (i2c_bus_number i),
                      raises dev' tr' (SMBus_open (i2c_bus_number i)))]) \<and>
         (\<forall>dev' tr'.
            raises dev' tr' (SMBus_open (i2c_bus_number i)) = None \<and>
            raises dev' (tr' @ [(SMBus_open (i2c_bus_number i), None)])
              (SMBus_read_byte (i2c_device_address i)) = None \<longrightarrow>
            i2c_connect dev' j tr' =
              (Inr (), j\<lparr>i2c_bus := Some SMBus, i2c_connected := True\<rparr>,
               tr' @ [(SMBus_open (i2c_bus_number i), None),
                      (SMBus_read_byte (i2c_device_address i), None)]))"
proof -
  have bus: "i2c_bus i' \<noteq> None" and off: "\<not> i2c_connected i'"
    by (simp_all add: assms(5))
  have jb: "i2c_bus j = None" and jn: "i2c_bus_number j = i2c_bus_number i"
    and ja: "i2c_device_address j = i2c_device_address i"
    by (simp_all add: assms(5,6))
  have a: "i2c_connect dev i tr =
           (Inl ConnectionError, i',
            tr @ [(SMBus_open (i2c_bus_number i), None),
                  (SMBus_read_byte (i2c_device_address i), Some e)])"
    using i2c_connect_probe_fails [OF assms(1-4)] by (simp add: assms(5))
  have b1: "i2c_bus i' = Some SMBus" by (simp add: assms(5))
  have b2: "\<not> i2c_is_connected i'" by (simp add: assms(5) i2c_is_connected_def)
  have c: "\<forall>dev' tr'. i2c_connect dev' i' tr' = (Inr (), i', tr')"
    using i2c_connect_stuck [OF bus] by blast
  have d: "\<forall>ops tr'. i2c_apply_all ops (i', tr') = (i', tr')"
    using i2c_apply_all_stuck [OF bus off] by blast
  have e1: "\<forall>dev' tr' ec. raises dev' tr' SMBus_close = Some ec \<longrightarrow>
            i2c_disconnect dev' i' tr' = (Inl ec, i', tr' @ [(SMBus_close, Some ec)])"
    using i2c_disconnect_close_raises [OF bus] by blast
  have e2: "\<forall>dev' tr'. raises dev' tr' SMBus_close = None \<longrightarrow>
            i2c_disconnect dev' i' tr' = (Inr (), j, tr' @ [(SMBus_close, None)])"
    using i2c_disconnect_closes [OF bus] by (simp add: assms(6))
  have f2: "\<not> i2c_is_connected j" by (simp add: assms(6) i2c_is_connected_def)
  have g: "\<forall>dev' tr'.
            take (Suc (length tr')) (snd (snd (i2c_connect dev' j tr'))) =
              tr' @ [(SMBus_open (i2c_bus_number i),
                      raises dev' tr' (SMBus_open (i2c_bus_number i)))]"
    using i2c_connect_retries [OF jb] by (simp add: jn)
  have h: "\<forall>dev' tr'.
            raises dev' tr' (SMBus_open (i2c_bus_number i)) = None \<and>
            raises dev' (tr' @ [(SMBus_open (i2c_bus_number i), None)])
              (SMBus_read_byte (i2c_device_address i)) = None \<longrightarrow>
            i2c_connect dev' j tr' =
              (Inr (), j\<lparr>i2c_bus := Some SMBus, i2c_connected := True\<rparr>,
               tr' @ [(SMBus_open (i2c_bus_number i), None),
                      (SMBus_read_byte (i2c_device_address i), None)])"
    using i2c_connect_succeeds [OF jb] by (simp add: jn ja)
  show ?thesis
    by (rule conjI [OF a conjI [OF b1 conjI [OF b2 conjI [OF c conjI [OF d conjI [OF e1
          conjI [OF e2 conjI [OF jb conjI [OF f2 conjI [OF g h]]]]]]]]]])
qed

lemma example_probe_premises:
  "i2c_bus \<lparr>i2c_bus_number = 1, i2c_device_address = 0x42, i2c_bus = None,
            i2c_connected = False\<rparr> = None"
  "raises (raising is_read_call IOError) []
     (SMBus_open (i2c_bus_number \<lparr>i2c_bus_number = 1, i2c_device_address = 0x42,
        i2c_bus = None, i2c_connected = False\<rparr>)) = None"
  "raises (raising is_read_call IOError)
     ([] @ [(SMBus_open (i2c_bus_number \<lparr>i2c_bus_number = 1, i2c_device_address = 0x42,
        i2c_bus = None, i2c_connected = False\<rparr>), None)])
     (SMBus_read_byte (i2c_device_address \<lparr>i2c_bus_number = 1, i2c_device_address = 0x42,
        i2c_bus = None, i2c_connected = False\<rparr>)) = Some IOError"
  "is_IOError IOError"
  "\<lparr>i2c_bus_number = 1, i2c_device_address = 0x42, i2c_bus = Some SMBus,
    i2c_connected = False\<rparr> =
   \<lparr>i2c_bus_number = 1, i2c_device_address = 0x42, i2c_bus = None,
    i2c_connected = False\<rparr>\<lparr>i2c_bus := Some SMBus, i2c_connected := False\<rparr>"
  "\<lparr>i2c_bus_number = 1, i2c_device_address = 0x42, i2c_bus = None,
    i2c_connected = False\<rparr> =
   \<lparr>i2c_bus_number = 1, i2c_device_address = 0x42, i2c_bus = Some SMBus,
    i2c_connected = False\<rparr>\<lparr>i2c_bus := None, i2c_connected := False\<rparr>"
  by (simp_all add: raising_def loopback_def)

theorem i2c_failed_probe_blocks_connect_witness:
  "i2c_bus \<lparr>i2c_bus_number = 1, i2c_device_address = 0x42, i2c_bus = None,
            i2c_connected = False\<rparr> = None \<and>
   raises (raising is_read_call IOError) [] (SMBus_open 1) = None \<and>
   raises (raising is_read_call IOError) [(SMBus_open 1, None)] (SMBus_read_byte 0x42) =
     Some IOError \<and>
   is_IOError IOError \<and>
   i2c_connect (raising is_read_call IOError)
      \<lparr>i2c_bus_number = 1, i2c_device_address = 0x42, i2c_bus = None,
       i2c_connected = False\<rparr> [] =
     (Inl ConnectionError,
      \<lparr>i2c_bus_number = 1, i2c_device_address = 0x42, i2c_bus = Some SMBus,
       i2c_connected = False\<rparr>,
      [(SMBus_open 1, None), (SMBus_read_byte 0x42, Some IOError)]) \<and>
   i2c_connect loopback
      \<lparr>i2c_bus_number = 1, i2c_device_address = 0x42, i2c_bus = Some SMBus,
       i2c_connected = False\<rparr>
      [(SMBus_open 1, None), (SMBus_read_byte 0x42, Some IOError)] =
     (Inr (),
      \<lparr>i2c_bus_number = 1, i2c_device_address = 0x42, i2c_bus = Some SMBus,
       i2c_connected = False\<rparr>,
      [(SMBus_open 1, None), (SMBus_read_byte 0x42, Some IOError)]) \<and>
   raises loopback [(SMBus_open 1, None), (SMBus_read_byte 0x42, Some IOError)]
      SMBus_close = None \<and>
   i2c_disconnect loopback
      \<lparr>i2c_bus_number = 1, i2c_device_address = 0x42, i2c_bus = Some SMBus,
       i2c_connected = False\<rparr>
      [(SMBus_open 1, None), (SMBus_read_byte 0x42, Some IOError)] =
     (Inr (),
      \<lparr>i2c_bus_number = 1, i2c_device_address = 0x42, i2c_bus = None,
       i2c_connected = False\<rparr>,
      [(SMBus_open 1, None), (SMBus_read_byte 0x42, Some IOError), (SMBus_close, None)]) \<and>
   i2c_connect loopback
      \<lparr>i2c_bus_number = 1, i2c_device_address = 0x42, i2c_bus = None,
       i2c_connected = False\<rparr>
      [(SMBus_open 1, None), (SMBus_read_byte 0x42, Some IOError), (SMBus_close, None)] =
     (Inr (),
      \<lparr>i2c_bus_number = 1, i2c_device_address = 0x42, i2c_bus = Some SMBus,
       i2c_connected = True\<rparr>,
      [(SMBus_open 1, None), (SMBus_read_byte 0x42, Some IOError), (SMBus_close, None),
       (SMBus_open 1, None), (SMBus_read_byte 0x42, None)])"
proof -
  note th = i2c_failed_probe_blocks_connect [OF example_probe_premises]
  have p: "raises (raising is_read_call IOError) [] (SMBus_open 1) = None"
    "raises (raising is_read_call IOError) [(SMBus_open 1, None)] (SMBus_read_byte 0x42) =
       Some IOError"
    "raises loopback [(SMBus_open 1, None), (SMBus_read_byte 0x42, Some IOError)]
       SMBus_close = None"
    by (simp_all add: raising_def loopback_def)
  have a: "i2c_connect (raising is_read_call IOError)
      \<lparr>i2c_bus_number = 1, i2c_device_address = 0x42, i2c_bus = None,
       i2c_connected = False\<rparr> [] =
     (Inl ConnectionError,
      \<lparr>i2c_bus_number = 1, i2c_device_address = 0x42, i2c_bus = Some SMBus,
       i2c_connected = False\<rparr>,
      [(SMBus_open 1, None), (SMBus_read_byte 0x42, Some IOError)])"
    using th [THEN conjunct1] by simp
  have c: "i2c_connect loopback
      \<lparr>i2c_bus_number = 1, i2c_device_address = 0x42, i2c_bus = Some SMBus,
       i2c_connected = False\<rparr>
      [(SMBus_open 1, None), (SMBus_read_byte 0x42, Some IOError)] =
     (Inr (),
      \<lparr>i2c_bus_number = 1, i2c_device_address = 0x42, i2c_bus = Some SMBus,
       i2c_connected = False\<rparr>,
      [(SMBus_open 1, None), (SMBus_read_byte 0x42, Some IOError)])"
    using th [THEN conjunct2, THEN conjunct2, THEN conjunct2, THEN conjunct1] by blast
  have d: "i2c_disconnect loopback
      \<lparr>i2c_bus_number = 1, i2c_device_address = 0x42, i2c_bus = Some SMBus,
       i2c_connected = False\<rparr>
      [(SMBus_open 1, None), (SMBus_read_byte 0x42, Some IOError)] =
     (Inr (),
      \<lparr>i2c_bus_number = 1, i2c_device_address = 0x42, i2c_bus = None,
       i2c_connected = False\<rparr>,
      [(SMBus_open 1, None), (SMBus_read_byte 0x42, Some IOError), (SMBus_close, None)])"
    using th [THEN conjunct2, THEN conjunct2, THEN conjunct2, THEN conjunct2, THEN conjunct2,
        THEN conjunct2, THEN conjunct1, THEN spec, THEN spec, THEN mp, OF p(3)]
    by simp
  have g: "i2c_connect loopback
      \<lparr>i2c_bus_number = 1, i2c_device_address = 0x42, i2c_bus = None,
       i2c_connected = False\<rparr>
      [(SMBus_open 1, None), (SMBus_read_byte 0x42, Some IOError), (SMBus_close, None)] =
     (Inr (),
      \<lparr>i2c_bus_number = 1, i2c_device_address = 0x42, i2c_bus = Some SMBus,
       i2c_connected = True\<rparr>,
      [(SMBus_open 1, None), (SMBus_read_byte 0x42, Some IOError), (SMBus_close, None),
       (SMBus_open 1, None), (SMBus_read_byte 0x42, None)])"
    using th [THEN conjunct2, THEN conjunct2, THEN conjunct2, THEN conjunct2, THEN conjunct2,
        THEN conjunct2, THEN conjunct2, THEN conjunct2, THEN conjunct2, THEN conjunct2,
        THEN spec, THEN spec,
        of loopback "[(SMBus_open 1, None), (SMBus_read_byte 0x42, Some IOError),
                      (SMBus_close, None)]"]
    by (simp add: loopback_def)
  show ?thesis
    by (rule conjI [OF example_probe_premises(1) conjI [OF p(1) conjI [OF p(2)
          conjI [OF example_probe_premises(4) conjI [OF a conjI [OF c conjI [OF p(3)
          conjI [OF d g]]]]]]]])
qed

subsection \<open>The UART round trip\<close>

lemma pid_decoded: "utf8_decode_ignore [0x50, 0x49, 0x44, 0x2C, 0x31, 0x2E, 0x30, 0x2C, 0x30, 0x2E, 0x31, 0x2C, 0x30, 0x2E, 0x30, 0x31, 0x0A]
   = [80, 73, 68, 44, 49, 46, 48, 44, 48, 46, 49, 44, 48, 46, 48, 49, 10]"
  by simp

lemma pid_stripped: "py_strip [80, 73, 68, 44, 49, 46, 48, 44, 48, 46, 49, 44, 48, 46, 48, 49, 10] = [80, 73, 68, 44, 49, 46, 48, 44, 48, 46, 49, 44, 48, 46, 48, 49]"
  by (simp add: py_strip_def py_isspace_def)

lemma pid_literal: "str_lit ''PID,1.0,0.1,0.01'' = [80, 73, 68, 44, 49, 46, 48, 44, 48, 46, 49, 44, 48, 46, 48, 49]"
  by (simp add: str_lit_def)

lemma pid_encoded: "utf8_encode (str_lit ''PID,1.0,0.1,0.01\<newline>'') =
   Inr [0x50, 0x49, 0x44, 0x2C, 0x31, 0x2E, 0x30, 0x2C, 0x30, 0x2E, 0x31, 0x2C, 0x30, 0x2E, 0x30, 0x31, 0x0A]"
  by (simp add: str_lit_def utf8_encode_cp_def)

lemma pid_first_line: "first_line [0x50, 0x49, 0x44, 0x2C, 0x31, 0x2E, 0x30, 0x2C, 0x30, 0x2E, 0x31, 0x2C, 0x30, 0x2E, 0x30, 0x31, 0x0A]
   = [0x50, 0x49, 0x44, 0x2C, 0x31, 0x2E, 0x30, 0x2C, 0x30, 0x2E, 0x31, 0x2C, 0x30, 0x2E, 0x30, 0x31, 0x0A]"
  by (simp add: first_line_def)

text \<open>
  Claim C9. A UART transport is connected to the loopback endpoint, sends the string
  \<open>"PID,1.0,0.1,0.01\n"\<close> and then receives: all three calls return, the receive
  yields exactly \<open>"PID,1.0,0.1,0.01"\<close>, and the library saw one open, one write of
  the seventeen bytes of the string and one \<open>readline\<close>.
\<close>

theorem uart_loopback_round_trip:
  "(case uart_connect loopback (uart_init port baudrate 1) [] of
      (r0, u0, tr0) \<Rightarrow>
        (case uart_send_data loopback u0 tr0 (str_lit ''PID,1.0,0.1,0.01\<newline>'') of
           (r1, u1, tr1) \<Rightarrow>
             (case uart_receive_data loopback u1 tr1 None of
                (r2, u2, tr2) \<Rightarrow>
                  r0 = Inr () \<and> r1 = Inr () \<and> r2 = Inr (str_lit ''PID,1.0,0.1,0.01'') \<and>
                  tr2 = [(Serial_open port baudrate 1, None),
                         (Serial_write [0x50, 0x49, 0x44, 0x2C, 0x31, 0x2E, 0x30, 0x2C, 0x30, 0x2E,
                                        0x31, 0x2C, 0x30, 0x2E, 0x30, 0x31, 0x0A], None),
                         (Serial_readline, None)])))"
  by (simp add: uart_connect_def uart_init_def uart_send_data_def uart_receive_data_def
        uart_is_connected_def lib_call_def loopback_def pid_encoded pending_def pid_first_line
        pid_stripped pid_literal)

subsection \<open>The receiver loop\<close>

lemma py_strip_empty: "py_strip [] = []"
  by (simp add: py_strip_def)

lemma receive_data_timed_out:
  "is_connected t \<Longrightarrow> timed_out_empty dev t tr \<Longrightarrow>
   receive_data dev t tr =
     (Inr (case t of CAN c \<Rightarrow> RxNone | _ \<Rightarrow> RxStr []), t, tr @ [(receive_call t, None)])"
  by (cases t)
     (simp_all add: uart_receive_data_def rs485_receive_data_def can_receive_data_def
        lib_call_def py_strip_empty)

lemma run_body_timed_out:
  "is_connected t \<Longrightarrow> timed_out_empty dev t tr \<Longrightarrow>
   run_body dev t tr =
     ((True, []), t, tr @ [(receive_call t, None), (QThread_msleep 50, None)])"
  by (simp add: run_body_def receive_data_timed_out split: transport.split)

lemma run_loop_timed_out:
  "is_running w \<Longrightarrow> is_connected t \<Longrightarrow> timed_out_empty dev t tr \<Longrightarrow>
   run_loop dev w t tr out =
     run_loop dev w t (tr @ [(receive_call t, None), (QThread_msleep 50, None)]) out"
  by (subst run_loop.simps) (simp add: run_body_timed_out)

lemma run_body_raises:
  "receive_data dev t tr = (Inl e, t', tr') \<Longrightarrow>
   run_body dev t tr = ((False, [error_occurred e]), t', tr')"
  by (simp add: run_body_def)

lemma run_loop_raises:
  "is_running w \<Longrightarrow> receive_data dev t tr = (Inl e, t', tr') \<Longrightarrow>
   run_loop dev w t tr out = Some (w, t', tr', out @ [error_occurred e])"
  by (subst run_loop.simps) (simp add: run_body_raises)

lemma i2c_receive_data_default:
  "i2c_is_connected i \<Longrightarrow>
   i2c_receive_data dev i tr 1 None =
     (case raises dev tr (SMBus_read_byte (i2c_device_address i)) of
        None \<Rightarrow>
          (Inr [smbus_int dev tr (SMBus_read_byte (i2c_device_address i))], i,
           tr @ [(SMBus_read_byte (i2c_device_address i), None)])
      | Some e \<Rightarrow>
          (Inl (if is_IOError e then IOError else e), i,
           tr @ [(SMBus_read_byte (i2c_device_address i), Some e)]))"
  by (simp add: i2c_receive_data_def lib_call_def split: option.split)

lemma i2c_receive_never_empty:
  "i2c_is_connected i \<Longrightarrow> receive_data dev (I2C i) tr = (Inr d, t', tr') \<Longrightarrow> truthy d"
  by (auto simp: i2c_receive_data_default split: option.splits)

lemma run_loop_i2c_raises:
  "is_running w \<Longrightarrow> i2c_is_connected i \<Longrightarrow>
   raises dev tr (SMBus_read_byte (i2c_device_address i)) = Some e \<Longrightarrow>
   run_loop dev w (I2C i) tr out =
     Some (w, I2C i, tr @ [(SMBus_read_byte (i2c_device_address i), Some e)],
           out @ [error_occurred (if is_IOError e then IOError else e)])"
  by (rule run_loop_raises) (simp_all add: i2c_receive_data_default)

text \<open>
  Claim C6 as stated, for every connected transport, fails for I2C: when the
  \<open>read_byte\<close> of a connected I2C transport times out, which smbus reports by
  raising \<open>TimeoutError\<close>, \<open>receive_data\<close> raises \<open>IOError\<close> and the receiver
  emits the error and leaves its loop.
\<close>

theorem i2c_receive_timeout_ends_loop:
  "is_connected (I2C \<lparr>i2c_bus_number = 1, i2c_device_address = 0x42,
                      i2c_bus = Some SMBus, i2c_connected = True\<rparr>) \<and>
   receive_data (raising is_read_call TimeoutError)
      (I2C \<lparr>i2c_bus_number = 1, i2c_device_address = 0x42,
            i2c_bus = Some SMBus, i2c_connected = True\<rparr>) [] =
     (Inl IOError,
      I2C \<lparr>i2c_bus_number = 1, i2c_device_address = 0x42,
           i2c_bus = Some SMBus, i2c_connected = True\<rparr>,
      [(SMBus_read_byte 0x42, Some TimeoutError)]) \<and>
   run (raising is_read_call TimeoutError) \<lparr>is_running = True\<rparr>
      (I2C \<lparr>i2c_bus_number = 1, i2c_device_address = 0x42,
            i2c_bus = Some SMBus, i2c_connected = True\<rparr>) [] =
     Some (\<lparr>is_running = True\<rparr>,
           I2C \<lparr>i2c_bus_number = 1, i2c_device_address = 0x42,
                i2c_bus = Some SMBus, i2c_connected = True\<rparr>,
           [(SMBus_read_byte 0x42, Some TimeoutError)], [error_occurred IOError])"
proof -
  have r: "raises (raising is_read_call TimeoutError) [] (SMBus_read_byte 0x42) =
      Some TimeoutError"
    by (simp add: raising_def loopback_def)
  have c: "i2c_is_connected \<lparr>i2c_bus_number = 1, i2c_device_address = 0x42,
      i2c_bus = Some SMBus, i2c_connected = True\<rparr>"
    by (simp add: i2c_is_connected_def)
  show ?thesis
    using run_loop_i2c_raises
      [where w = "\<lparr>is_running = True\<rparr>" and dev = "raising is_read_call TimeoutError"
         and tr = "[]" and e = TimeoutError and out = "[]"
         and i = "\<lparr>i2c_bus_number = 1, i2c_device_address = 0x42,
                   i2c_bus = Some SMBus, i2c_connected = True\<rparr>"]
    by (simp add: r c run_def i2c_receive_data_default)
qed

lemma read_byte_loop_length:
  "read_byte_loop dev a n tr = (Inr bs, tr') \<Longrightarrow> length bs = n"
proof (induction n arbitrary: tr bs tr')
  case 0
  then show ?case by simp
next
  case (Suc n)
  then show ?case
    by (auto simp: lib_call_def split: option.splits prod.splits sum.splits)
qed

lemma i2c_receive_data_length:
  "i2c_receive_data dev i tr n None = (Inr bs, i', tr') \<Longrightarrow> length bs = nat n"
  by (auto simp: i2c_receive_data_def split: if_splits prod.splits sum.splits
        dest: read_byte_loop_length)

text \<open>
  Claim C6, amended. For a connected UART, RS485 or CAN transport, when the receive
  timeout elapses with nothing available, \<open>receive_data\<close> returns the empty string
  (UART, RS485) or \<open>None\<close> (CAN) without raising, the receiver emits nothing, sleeps
  and goes on with the next iteration of its loop. The I2C transport has no receive
  timeout. Its \<open>receive_data\<close> without a register returns exactly \<open>num_bytes\<close>
  bytes whenever it returns; called without arguments, as the receiver calls it, it
  returns the one byte read when \<open>read_byte\<close> returns, so what the receiver gets
  from it is never empty or absent. When \<open>read_byte\<close> raises there, a timeout
  included, \<open>receive_data\<close> raises \<open>IOError\<close> if the exception is an
  \<open>IOError\<close>, as \<open>TimeoutError\<close> is, and the exception itself otherwise, and
  the receiver emits that error and leaves its loop.
\<close>

theorem receive_timeout_continues:
  "(is_connected t \<and> is_running w \<and> timed_out_empty dev t tr \<longrightarrow>
      receive_data dev t tr =
        (Inr (case t of CAN c \<Rightarrow> RxNone | _ \<Rightarrow> RxStr []), t, tr @ [(receive_call t, None)]) \<and>
      run_body dev t tr =
        ((True, []), t, tr @ [(receive_call t, None), (QThread_msleep 50, None)]) \<and>
      run_loop dev w t tr out =
        run_loop dev w t (tr @ [(receive_call t, None), (QThread_msleep 50, None)]) out) \<and>
   (i2c_receive_data dev i tr n None = (Inr bs, ia, tra) \<longrightarrow> length bs = nat n) \<and>
   (i2c_is_connected i \<and> raises dev tr (SMBus_read_byte (i2c_device_address i)) = None \<longrightarrow>
      receive_data dev (I2C i) tr =
        (Inr (RxList [smbus_int dev tr (SMBus_read_byte (i2c_device_address i))]), I2C i,
         tr @ [(SMBus_read_byte (i2c_device_address i), None)])) \<and>
   (i2c_is_connected i \<and> receive_data dev (I2C i) tr = (Inr d, ta, tra) \<longrightarrow> truthy d) \<and>
   (is_running w \<and> i2c_is_connected i \<and>
    raises dev tr (SMBus_read_byte (i2c_device_address i)) = Some e \<longrightarrow>
      receive_data dev (I2C i) tr =
        (Inl (if is_IOError e then IOError else e), I2C i,
         tr @ [(SMBus_read_byte (i2c_device_address i), Some e)]) \<and>
      run_loop dev w (I2C i) tr out =
        Some (w, I2C i, tr @ [(SMBus_read_byte (i2c_device_address i), Some e)],
              out @ [error_occurred (if is_IOError e then IOError else e)]))"
proof -
  have a: "is_connected t \<and> is_running w \<and> timed_out_empty dev t tr \<longrightarrow>
      receive_data dev t tr =
        (Inr (case t of CAN c \<Rightarrow> RxNone | _ \<Rightarrow> RxStr []), t, tr @ [(receive_call t, None)]) \<and>
      run_body dev t tr =
        ((True, []), t, tr @ [(receive_call t, None), (QThread_msleep 50, None)]) \<and>
      run_loop dev w t tr out =
        run_loop dev w t (tr @ [(receive_call t, None), (QThread_msleep 50, None)]) out"
    using receive_data_timed_out run_body_timed_out run_loop_timed_out by blast
  have b: "i2c_receive_data dev i tr n None = (Inr bs, ia, tra) \<longrightarrow> length bs = nat n"
    by (rule impI) (erule i2c_receive_data_length)
  have c: "i2c_is_connected i \<and>
      raises dev tr (SMBus_read_byte (i2c_device_address i)) = None \<longrightarrow>
      receive_data dev (I2C i) tr =
        (Inr (RxList [smbus_int dev tr (SMBus_read_byte (i2c_device_address i))]), I2C i,
         tr @ [(SMBus_read_byte (i2c_device_address i), None)])"
    by (simp add: i2c_receive_data_default)
  have d: "i2c_is_connected i \<and> receive_data dev (I2C i) tr = (Inr d, ta, tra) \<longrightarrow> truthy d"
    using i2c_receive_never_empty by blast
  have e: "is_running w \<and> i2c_is_connected i \<and>
    raises dev tr (SMBus_read_byte (i2c_device_address i)) = Some e \<longrightarrow>
      receive_data dev (I2C i) tr =
        (Inl (if is_IOError e then IOError else e), I2C i,
         tr @ [(SMBus_read_byte (i2c_device_address i), Some e)]) \<and>
      run_loop dev w (I2C i) tr out =
        Some (w, I2C i, tr @ [(SMBus_read_byte (i2c_device_address i), Some e)],
              out @ [error_occurred (if is_IOError e then IOError else e)])"
    using run_loop_i2c_raises [of w i dev tr e out] by (simp add: i2c_receive_data_default)
  show ?thesis
    by (rule conjI [OF a conjI [OF b conjI [OF c conjI [OF d e]]]])
qed

lemma example_uart_timed_out:
  "is_connected (UART ((uart_init (str_lit ''/dev/ttyUSB0'') 115200 1)
      \<lparr>uart_serial_conn := Some \<lparr>is_open = True\<rparr>\<rparr>)) \<and>
   is_running \<lparr>is_running = True\<rparr> \<and>
   timed_out_empty loopback
      (UART ((uart_init (str_lit ''/dev/ttyUSB0'') 115200 1)
         \<lparr>uart_serial_conn := Some \<lparr>is_open = True\<rparr>\<rparr>)) []"
  by (simp add: uart_init_def uart_is_connected_def loopback_def pending_def first_line_def)

lemma example_i2c_read_raises:
  "is_running \<lparr>is_running = True\<rparr> \<and>
   i2c_is_connected \<lparr>i2c_bus_number = 1, i2c_device_address = 0x42,
      i2c_bus = Some SMBus, i2c_connected = True\<rparr> \<and>
   raises (raising is_read_call TypeError) []
     (SMBus_read_byte (i2c_device_address \<lparr>i2c_bus_number = 1, i2c_device_address = 0x42,
        i2c_bus = Some SMBus, i2c_connected = True\<rparr>)) = Some TypeError"
  by (simp add: i2c_is_connected_def raising_def loopback_def)

theorem receive_timeout_continues_witness:
  "(is_connected (UART ((uart_init (str_lit ''/dev/ttyUSB0'') 115200 1)
      \<lparr>uart_serial_conn := Some \<lparr>is_open = True\<rparr>\<rparr>)) \<and>
    is_running \<lparr>is_running = True\<rparr> \<and>
    timed_out_empty loopback
      (UART ((uart_init (str_lit ''/dev/ttyUSB0'') 115200 1)
         \<lparr>uart_serial_conn := Some \<lparr>is_open = True\<rparr>\<rparr>)) []) \<and>
   (receive_data loopback
      (UART ((uart_init (str_lit ''/dev/ttyUSB0'') 115200 1)
         \<lparr>uart_serial_conn := Some \<lparr>is_open = True\<rparr>\<rparr>)) [] =
     (Inr (RxStr []),
      UART ((uart_init (str_lit ''/dev/ttyUSB0'') 115200 1)
         \<lparr>uart_serial_conn := Some \<lparr>is_open = True\<rparr>\<rparr>),
      [(Serial_readline, None)]) \<and>
    run_body loopback
      (UART ((uart_init (str_lit ''/dev/ttyUSB0'') 115200 1)
         \<lparr>uart_serial_conn := Some \<lparr>is_open = True\<rparr>\<rparr>)) [] =
     ((True, []),
      UART ((uart_init (str_lit ''/dev/ttyUSB0'') 115200 1)
         \<lparr>uart_serial_conn := Some \<lparr>is_open = True\<rparr>\<rparr>),
      [(Serial_readline, None), (QThread_msleep 50, None)])) \<and>
   (is_running \<lparr>is_running = True\<rparr> \<and>
    i2c_is_connected \<lparr>i2c_bus_number = 1, i2c_device_address = 0x42,
      i2c_bus = Some SMBus, i2c_connected = True\<rparr> \<and>
    raises (raising is_read_call TypeError) []
      (SMBus_read_byte (i2c_device_address \<lparr>i2c_bus_number = 1, i2c_device_address = 0x42,
         i2c_bus = Some SMBus, i2c_connected = True\<rparr>)) = Some TypeError) \<and>
   run_loop (raising is_read_call TypeError) \<lparr>is_running = True\<rparr>
      (I2C \<lparr>i2c_bus_number = 1, i2c_device_address = 0x42,
            i2c_bus = Some SMBus, i2c_connected = True\<rparr>) [] [] =
     Some (\<lparr>is_running = True\<rparr>,
           I2C \<lparr>i2c_bus_number = 1, i2c_device_address = 0x42,
                i2c_bus = Some SMBus, i2c_connected = True\<rparr>,
           [(SMBus_read_byte 0x42, Some TypeError)], [error_occurred TypeError])"
proof -
  note u = receive_timeout_continues
    [where dev = loopback and tr = "[]", THEN conjunct1, THEN mp, OF example_uart_timed_out]
  have u': "receive_data loopback
      (UART ((uart_init (str_lit ''/dev/ttyUSB0'') 115200 1)
         \<lparr>uart_serial_conn := Some \<lparr>is_open = True\<rparr>\<rparr>)) [] =
     (Inr (RxStr []),
      UART ((uart_init (str_lit ''/dev/ttyUSB0'') 115200 1)
         \<lparr>uart_serial_conn := Some \<lparr>is_open = True\<rparr>\<rparr>),
      [(Serial_readline, None)]) \<and>
    run_body loopback
      (UART ((uart_init (str_lit ''/dev/ttyUSB0'') 115200 1)
         \<lparr>uart_serial_conn := Some \<lparr>is_open = True\<rparr>\<rparr>)) [] =
     ((True, []),
      UART ((uart_init (str_lit ''/dev/ttyUSB0'') 115200 1)
         \<lparr>uart_serial_conn := Some \<lparr>is_open = True\<rparr>\<rparr>),
      [(Serial_readline, None), (QThread_msleep 50, None)])"
    using u by simp
  note v = receive_timeout_continues
    [where dev = "raising is_read_call TypeError" and tr = "[]" and out = "[]",
     THEN conjunct2, THEN conjunct2, THEN conjunct2, THEN conjunct2, THEN mp,
     OF example_i2c_read_raises, THEN conjunct2]
  have v': "run_loop (raising is_read_call TypeError) \<lparr>is_running = True\<rparr>
      (I2C \<lparr>i2c_bus_number = 1, i2c_device_address = 0x42,
            i2c_bus = Some SMBus, i2c_connected = True\<rparr>) [] [] =
     Some (\<lparr>is_running = True\<rparr>,
           I2C \<lparr>i2c_bus_number = 1, i2c_device_address = 0x42,
                i2c_bus = Some SMBus, i2c_connected = True\<rparr>,
           [(SMBus_read_byte 0x42, Some TypeError)], [error_occurred TypeError])"
    using v by simp
  show ?thesis
    by (rule conjI [OF example_uart_timed_out conjI [OF u' conjI
          [OF example_i2c_read_raises v']]])
qed

lemma handle_comm_error_stops_worker:
  "comm_worker (fst (snd (handle_comm_error dev mw tr sg))) = map_option stop (comm_worker mw) \<and>
   worker_thread (fst (snd (handle_comm_error dev mw tr sg))) =
     map_option (\<lambda>_. Thread_finished) (worker_thread mw)"
  by (auto simp: handle_comm_error_def disconnect_device_def Let_def log_def
        split: option.splits prod.splits sum.splits)

lemma handle_comm_error_closes:
  assumes "comm_instance mw = Some t" and "holds_handle t"
    and "raises dev tr (close_call t) = None"
  shows "fst (handle_comm_error dev mw tr sg) = Inr () \<and>
     comm_instance (fst (snd (handle_comm_error dev mw tr sg))) = None \<and>
     snd (snd (handle_comm_error dev mw tr sg)) = tr @ [(close_call t, None)]"
proof -
  obtain r t2 tr2 where d: "disconnect dev t tr = (r, t2, tr2)"
    by (cases "disconnect dev t tr") auto
  with disconnect_closes [OF assms(2,3)] have "r = Inr ()" "tr2 = tr @ [(close_call t, None)]"
    by simp_all
  with d assms(1) show ?thesis
    by (simp add: handle_comm_error_def disconnect_device_def Let_def log_def)
qed

lemma handle_comm_error_close_raises:
  assumes "comm_instance mw = Some t" and "holds_handle t"
    and "raises dev tr (close_call t) = Some e"
  shows "fst (handle_comm_error dev mw tr sg) = Inl e \<and>
     comm_instance (fst (snd (handle_comm_error dev mw tr sg))) = Some t \<and>
     snd (snd (handle_comm_error dev mw tr sg)) = tr @ [(close_call t, Some e)]"
  using assms(1) disconnect_close_raises [OF assms(2,3)]
  by (simp add: handle_comm_error_def disconnect_device_def Let_def log_def)

lemma handle_comm_error_without_handle:
  assumes "comm_instance mw = Some t" and "\<not> holds_handle t"
  shows "fst (handle_comm_error dev mw tr sg) = Inr () \<and>
     comm_instance (fst (snd (handle_comm_error dev mw tr sg))) = None \<and>
     snd (snd (handle_comm_error dev mw tr sg)) = tr"
proof -
  obtain r t2 tr2 where d: "disconnect dev t tr = (r, t2, tr2)"
    by (cases "disconnect dev t tr") auto
  with disconnect_without_handle [OF assms(2), of dev tr] have "r = Inr ()" "tr2 = tr"
    by simp_all
  with d assms(1) show ?thesis
    by (simp add: handle_comm_error_def disconnect_device_def Let_def log_def)
qed

text \<open>
  Claim C8 as stated, that the handler always ends with the transport disconnected,
  fails when the release raises as well: with a UART transport whose \<open>readline\<close> and
  \<open>close\<close> both raise, the handler stops the worker and ends the thread, the
  exception of \<open>close\<close> leaves it, and the window keeps the transport, which is still
  connected and holds its port.
\<close>

theorem receive_and_close_raise:
  "receive_data (raising is_read_or_close_call SerialException)
      (UART ((uart_init (str_lit ''/dev/ttyUSB0'') 115200 1)
         \<lparr>uart_serial_conn := Some \<lparr>is_open = True\<rparr>\<rparr>)) [] =
     (Inl SerialException,
      UART ((uart_init (str_lit ''/dev/ttyUSB0'') 115200 1)
         \<lparr>uart_serial_conn := Some \<lparr>is_open = True\<rparr>\<rparr>),
      [(Serial_readline, Some SerialException)]) \<and>
   deliver (raising is_read_or_close_call SerialException) example_window
      [(Serial_readline, Some SerialException)] (error_occurred SerialException) =
     (Inl SerialException,
      \<lparr>comm_instance = Some (UART ((uart_init (str_lit ''/dev/ttyUSB0'') 115200 1)
                  \<lparr>uart_serial_conn := Some \<lparr>is_open = True\<rparr>\<rparr>)),
       worker_thread = Some Thread_finished,
       comm_worker = Some \<lparr>is_running = False\<rparr>,
       log_display = [Log_error (error_occurred SerialException)],
       message_boxes = [],
       connect_button_shows_disconnect = True, protocol_combo_enabled = False,
       send_pid_button_enabled = True, open_param_window_button_enabled = True\<rparr>,
      [(Serial_readline, Some SerialException), (Serial_close, Some SerialException)]) \<and>
   is_connected (UART ((uart_init (str_lit ''/dev/ttyUSB0'') 115200 1)
      \<lparr>uart_serial_conn := Some \<lparr>is_open = True\<rparr>\<rparr>)) \<and>
   holds_handle (UART ((uart_init (str_lit ''/dev/ttyUSB0'') 115200 1)
      \<lparr>uart_serial_conn := Some \<lparr>is_open = True\<rparr>\<rparr>))"
  by (simp add: example_window_def handle_comm_error_def disconnect_device_def log_def
        Let_def stop_def uart_init_def uart_disconnect_def uart_receive_data_def
        uart_is_connected_def lib_call_def raising_def loopback_def
        is_read_or_close_call_def)

text \<open>
  Claim C8, amended. When a \<open>receive_data()\<close> call inside the receiver's loop raises,
  the loop ends there: the receiver has emitted exactly one signal more, the error, and
  made no further library call. The handler connected to that signal stops the worker,
  ends its thread and calls the transport's \<open>disconnect()\<close>. When the transport holds
  no handle, or its release call does not raise, the handler returns, the transport is
  disconnected without a handle and the window holds no transport. When the release
  call raises, that exception leaves the handler and the window keeps the transport.
\<close>

theorem receive_error_ends_session:
  assumes "is_running w" and "receive_data dev t tr = (Inl e, t', tr')"
  shows "run_body dev t tr = ((False, [error_occurred e]), t', tr') \<and>
         run_loop dev w t tr out = Some (w, t', tr', out @ [error_occurred e]) \<and>
         (comm_instance mw = Some t' \<and> comm_worker mw = Some w \<and>
          worker_thread mw = Some Thread_running \<longrightarrow>
            comm_worker (fst (snd (deliver dev mw tr' (error_occurred e)))) = Some (stop w) \<and>
            \<not> is_running (stop w) \<and>
            worker_thread (fst (snd (deliver dev mw tr' (error_occurred e)))) =
              Some Thread_finished \<and>
            (\<not> holds_handle t' \<longrightarrow>
               fst (deliver dev mw tr' (error_occurred e)) = Inr () \<and>
               comm_instance (fst (snd (deliver dev mw tr' (error_occurred e)))) = None \<and>
               snd (snd (deliver dev mw tr' (error_occurred e))) = tr') \<and>
            (holds_handle t' \<and> raises dev tr' (close_call t') = None \<longrightarrow>
               fst (deliver dev mw tr' (error_occurred e)) = Inr () \<and>
               comm_instance (fst (snd (deliver dev mw tr' (error_occurred e)))) = None \<and>
               snd (snd (deliver dev mw tr' (error_occurred e))) =
                 tr' @ [(close_call t', None)] \<and>
               \<not> is_connected (fst (snd (disconnect dev t' tr'))) \<and>
               \<not> holds_handle (fst (snd (disconnect dev t' tr')))) \<and>
            (\<forall>ec. holds_handle t' \<and> raises dev tr' (close_call t') = Some ec \<longrightarrow>
               fst (deliver dev mw tr' (error_occurred e)) = Inl ec \<and>
               comm_instance (fst (snd (deliver dev mw tr' (error_occurred e)))) = Some t' \<and>
               snd (snd (deliver dev mw tr' (error_occurred e))) =
                 tr' @ [(close_call t', Some ec)]))"
proof -
  have a: "run_body dev t tr = ((False, [error_occurred e]), t', tr')"
    using assms(2) by (rule run_body_raises)
  have b: "run_loop dev w t tr out = Some (w, t', tr', out @ [error_occurred e])"
    using assms by (rule run_loop_raises)
  have c: "comm_instance mw = Some t' \<and> comm_worker mw = Some w \<and>
          worker_thread mw = Some Thread_running \<longrightarrow>
            comm_worker (fst (snd (deliver dev mw tr' (error_occurred e)))) = Some (stop w) \<and>
            \<not> is_running (stop w) \<and>
            worker_thread (fst (snd (deliver dev mw tr' (error_occurred e)))) =
              Some Thread_finished \<and>
            (\<not> holds_handle t' \<longrightarrow>
               fst (deliver dev mw tr' (error_occurred e)) = Inr () \<and>
               comm_instance (fst (snd (deliver dev mw tr' (error_occurred e)))) = None \<and>
               snd (snd (deliver dev mw tr' (error_occurred e))) = tr') \<and>
            (holds_handle t' \<and> raises dev tr' (close_call t') = None \<longrightarrow>
               fst (deliver dev mw tr' (error_occurred e)) = Inr () \<and>
               comm_instance (fst (snd (deliver dev mw tr' (error_occurred e)))) = None \<and>
               snd (snd (deliver dev mw tr' (error_occurred e))) =
                 tr' @ [(close_call t', None)] \<and>
               \<not> is_connected (fst (snd (disconnect dev t' tr'))) \<and>
               \<not> holds_handle (fst (snd (disconnect dev t' tr')))) \<and>
            (\<forall>ec. holds_handle t' \<and> raises dev tr' (close_call t') = Some ec \<longrightarrow>
               fst (deliver dev mw tr' (error_occurred e)) = Inl ec \<and>
               comm_instance (fst (snd (deliver dev mw tr' (error_occurred e)))) = Some t' \<and>
               snd (snd (deliver dev mw tr' (error_occurred e))) =
                 tr' @ [(close_call t', Some ec)])"
  proof (intro impI, elim conjE)
    assume m: "comm_instance mw = Some t'" "comm_worker mw = Some w"
      "worker_thread mw = Some Thread_running"
    have c1: "comm_worker (fst (snd (deliver dev mw tr' (error_occurred e)))) = Some (stop w)"
      and c3: "worker_thread (fst (snd (deliver dev mw tr' (error_occurred e)))) =
              Some Thread_finished"
      using handle_comm_error_stops_worker [of dev mw tr' "error_occurred e"] m(2,3)
      by simp_all
    have c2: "\<not> is_running (stop w)" by (simp add: stop_def)
    have c4: "\<not> holds_handle t' \<longrightarrow>
               fst (deliver dev mw tr' (error_occurred e)) = Inr () \<and>
               comm_instance (fst (snd (deliver dev mw tr' (error_occurred e)))) = None \<and>
               snd (snd (deliver dev mw tr' (error_occurred e))) = tr'"
      using handle_comm_error_without_handle [OF m(1), of dev tr' "error_occurred e"]
      by simp
    have c5: "holds_handle t' \<and> raises dev tr' (close_call t') = None \<longrightarrow>
               fst (deliver dev mw tr' (error_occurred e)) = Inr () \<and>
               comm_instance (fst (snd (deliver dev mw tr' (error_occurred e)))) = None \<and>
               snd (snd (deliver dev mw tr' (error_occurred e))) =
                 tr' @ [(close_call t', None)] \<and>
               \<not> is_connected (fst (snd (disconnect dev t' tr'))) \<and>
               \<not> holds_handle (fst (snd (disconnect dev t' tr')))"
      using handle_comm_error_closes [OF m(1), of dev tr' "error_occurred e"]
        disconnect_closes [of t' dev tr']
      by simp
    have c6: "\<forall>ec. holds_handle t' \<and> raises dev tr' (close_call t') = Some ec \<longrightarrow>
               fst (deliver dev mw tr' (error_occurred e)) = Inl ec \<and>
               comm_instance (fst (snd (deliver dev mw tr' (error_occurred e)))) = Some t' \<and>
               snd (snd (deliver dev mw tr' (error_occurred e))) =
                 tr' @ [(close_call t', Some ec)]"
      using handle_comm_error_close_raises [OF m(1), of dev tr' _ "error_occurred e"]
      by simp
    show "comm_worker (fst (snd (deliver dev mw tr' (error_occurred e)))) = Some (stop w) \<and>
            \<not> is_running (stop w) \<and>
            worker_thread (fst (snd (deliver dev mw tr' (error_occurred e)))) =
              Some Thread_finished \<and>
            (\<not> holds_handle t' \<longrightarrow>
               fst (deliver dev mw tr' (error_occurred e)) = Inr () \<and>
               comm_instance (fst (snd (deliver dev mw tr' (error_occurred e)))) = None \<and>
               snd (snd (deliver dev mw tr' (error_occurred e))) = tr') \<and>
            (holds_handle t' \<and> raises dev tr' (close_call t') = None \<longrightarrow>
               fst (deliver dev mw tr' (error_occurred e)) = Inr () \<and>
               comm_instance (fst (snd (deliver dev mw tr' (error_occurred e)))) = None \<and>
               snd (snd (deliver dev mw tr' (error_occurred e))) =
                 tr' @ [(close_call t', None)] \<and>
               \<not> is_connected (fst (snd (disconnect dev t' tr'))) \<and>
               \<not> holds_handle (fst (snd (disconnect dev t' tr')))) \<and>
            (\<forall>ec. holds_handle t' \<and> raises dev tr' (close_call t') = Some ec \<longrightarrow>
               fst (deliver dev mw tr' (error_occurred e)) = Inl ec \<and>
               comm_instance (fst (snd (deliver dev mw tr' (error_occurred e)))) = Some t' \<and>
               snd (snd (deliver dev mw tr' (error_occurred e))) =
                 tr' @ [(close_call t', Some ec)])"
      by (rule conjI [OF c1 conjI [OF c2 conjI [OF c3 conjI [OF c4 conjI [OF c5 c6]]]]])
  qed
  show ?thesis
    by (rule conjI [OF a conjI [OF b c]])
qed

lemma example_receive_raises: "receive_data (raising is_read_call SerialException)
      (UART ((uart_init (str_lit ''/dev/ttyUSB0'') 115200 1)
         \<lparr>uart_serial_conn := Some \<lparr>is_open = True\<rparr>\<rparr>)) [] =
     (Inl SerialException,
      UART ((uart_init (str_lit ''/dev/ttyUSB0'') 115200 1)
         \<lparr>uart_serial_conn := Some \<lparr>is_open = True\<rparr>\<rparr>),
      [(Serial_readline, Some SerialException)])"
  by (simp add: uart_init_def uart_is_connected_def uart_receive_data_def
        lib_call_def raising_def loopback_def)

theorem receive_error_ends_session_witness:
  "is_running \<lparr>is_running = True\<rparr> \<and>
   receive_data (raising is_read_call SerialException)
      (UART ((uart_init (str_lit ''/dev/ttyUSB0'') 115200 1)
         \<lparr>uart_serial_conn := Some \<lparr>is_open = True\<rparr>\<rparr>)) [] =
     (Inl SerialException,
      UART ((uart_init (str_lit ''/dev/ttyUSB0'') 115200 1)
         \<lparr>uart_serial_conn := Some \<lparr>is_open = True\<rparr>\<rparr>),
      [(Serial_readline, Some SerialException)]) \<and>
   comm_instance example_window =
     Some (UART ((uart_init (str_lit ''/dev/ttyUSB0'') 115200 1)
        \<lparr>uart_serial_conn := Some \<lparr>is_open = True\<rparr>\<rparr>)) \<and>
   comm_worker example_window = Some \<lparr>is_running = True\<rparr> \<and>
   worker_thread example_window = Some Thread_running \<and>
   holds_handle (UART ((uart_init (str_lit ''/dev/ttyUSB0'') 115200 1)
      \<lparr>uart_serial_conn := Some \<lparr>is_open = True\<rparr>\<rparr>)) \<and>
   raises (raising is_read_call SerialException) [(Serial_readline, Some SerialException)]
      (close_call (UART ((uart_init (str_lit ''/dev/ttyUSB0'') 115200 1)
         \<lparr>uart_serial_conn := Some \<lparr>is_open = True\<rparr>\<rparr>))) = None \<and>
   run_loop (raising is_read_call SerialException) \<lparr>is_running = True\<rparr>
      (UART ((uart_init (str_lit ''/dev/ttyUSB0'') 115200 1)
         \<lparr>uart_serial_conn := Some \<lparr>is_open = True\<rparr>\<rparr>)) [] [] =
     Some (\<lparr>is_running = True\<rparr>,
           UART ((uart_init (str_lit ''/dev/ttyUSB0'') 115200 1)
              \<lparr>uart_serial_conn := Some \<lparr>is_open = True\<rparr>\<rparr>),
           [(Serial_readline, Some SerialException)], [] @ [error_occurred SerialException]) \<and>
   fst (deliver (raising is_read_call SerialException) example_window
          [(Serial_readline, Some SerialException)] (error_occurred SerialException)) =
     Inr () \<and>
   comm_instance (fst (snd (deliver (raising is_read_call SerialException) example_window
          [(Serial_readline, Some SerialException)] (error_occurred SerialException)))) =
     None \<and>
   snd (snd (deliver (raising is_read_call SerialException) example_window
          [(Serial_readline, Some SerialException)] (error_occurred SerialException))) =
     [(Serial_readline, Some SerialException)] @
     [(close_call (UART ((uart_init (str_lit ''/dev/ttyUSB0'') 115200 1)
         \<lparr>uart_serial_conn := Some \<lparr>is_open = True\<rparr>\<rparr>)), None)]"
proof -
  have a: "is_running \<lparr>is_running = True\<rparr>" by simp
  note th = receive_error_ends_session
    [OF a example_receive_raises, where out = "[]" and mw = example_window]
  have m1: "comm_instance example_window =
     Some (UART ((uart_init (str_lit ''/dev/ttyUSB0'') 115200 1)
        \<lparr>uart_serial_conn := Some \<lparr>is_open = True\<rparr>\<rparr>))"
    and m2: "comm_worker example_window = Some \<lparr>is_running = True\<rparr>"
    and m3: "worker_thread example_window = Some Thread_running"
    by (simp_all add: example_window_def)
  have h: "holds_handle (UART ((uart_init (str_lit ''/dev/ttyUSB0'') 115200 1)
      \<lparr>uart_serial_conn := Some \<lparr>is_open = True\<rparr>\<rparr>))"
    by (simp add: uart_init_def)
  have r: "raises (raising is_read_call SerialException)
      [(Serial_readline, Some SerialException)]
      (close_call (UART ((uart_init (str_lit ''/dev/ttyUSB0'') 115200 1)
         \<lparr>uart_serial_conn := Some \<lparr>is_open = True\<rparr>\<rparr>))) = None"
    by (simp add: raising_def loopback_def)
  have c: "run_loop (raising is_read_call SerialException) \<lparr>is_running = True\<rparr>
      (UART ((uart_init (str_lit ''/dev/ttyUSB0'') 115200 1)
         \<lparr>uart_serial_conn := Some \<lparr>is_open = True\<rparr>\<rparr>)) [] [] =
     Some (\<lparr>is_running = True\<rparr>,
           UART ((uart_init (str_lit ''/dev/ttyUSB0'') 115200 1)
              \<lparr>uart_serial_conn := Some \<lparr>is_open = True\<rparr>\<rparr>),
           [(Serial_readline, Some SerialException)], [] @ [error_occurred SerialException])"
    by (rule th [THEN conjunct2, THEN conjunct1])
  note hd = th [THEN conjunct2, THEN conjunct2, THEN mp, OF conjI [OF m1 conjI [OF m2 m3]]]
  note cl = hd [THEN conjunct2, THEN conjunct2, THEN conjunct2, THEN conjunct2,
    THEN conjunct1, THEN mp, OF conjI [OF h r]]
  show ?thesis
    by (rule conjI [OF a conjI [OF example_receive_raises conjI [OF m1 conjI [OF m2
          conjI [OF m3 conjI [OF h conjI [OF r conjI [OF c conjI [OF cl [THEN conjunct1]
          conjI [OF cl [THEN conjunct2, THEN conjunct1]
                    cl [THEN conjunct2, THEN conjunct2, THEN conjunct1]]]]]]]]]]])
qed

end
